theory Spec2Isabelle
  imports Complex_Main
begin

section \<open>Exercise repetition detectors\<close>

text \<open>
  A shallow embedding of the pose-to-repetition detectors (push-up, squat, sit-up).
  A JavaScript \<open>number\<close> that holds a coordinate, a confidence score or an angle is
  modelled as a \<open>real\<close>: arithmetic is exact, there is no rounding, no NaN and no
  infinity. The counters \<open>lastReps\<close>, \<open>frameCount\<close> and \<open>lastRepFrameCount\<close> only ever
  hold integers and are modelled as \<open>int\<close>. A method that mutates \<open>this\<close> takes the
  detector and returns the updated one, together with its return value.
\<close>

subsection \<open>Data model\<close>

record Keypoint =
  kp_x :: real
  kp_y :: real
  kp_score :: real

record Pose =
  keypoints :: "Keypoint list"
  pose_score :: real

record ExerciseDetector =
  lastReps :: int
  isInDownPosition :: bool
  lastAngle :: real
  formQuality :: string
  frameCount :: int
  lastRepFrameCount :: int

subsection \<open>Geometry helpers\<close>

definition calculateDistance :: "Keypoint \<Rightarrow> Keypoint \<Rightarrow> real" where
  "calculateDistance p1 p2 = sqrt ((kp_x p1 - kp_x p2) ^ 2 + (kp_y p1 - kp_y p2) ^ 2)"

definition calculateAngle :: "Keypoint \<Rightarrow> Keypoint \<Rightarrow> Keypoint \<Rightarrow> real" where
  "calculateAngle a b c =
     (let ba_x = kp_x a - kp_x b; ba_y = kp_y a - kp_y b;
          bc_x = kp_x c - kp_x b; bc_y = kp_y c - kp_y b;
          dotProduct = ba_x * bc_x + ba_y * bc_y;
          baLength = sqrt (ba_x ^ 2 + ba_y ^ 2);
          bcLength = sqrt (bc_x ^ 2 + bc_y ^ 2)
      in if baLength = 0 \<or> bcLength = 0 then 0
         else let cosAngle = dotProduct / (baLength * bcLength)
              in arccos (min 1 (max (- 1) cosAngle)) * (180 / pi))"

text \<open>
  \<open>pose.keypoints[index]\<close> is \<open>undefined\<close> when the index is out of range, and
  \<open>undefined\<close> is falsy, so the lookup yields \<open>null\<close> there.
\<close>

definition getKeypoint :: "Pose \<Rightarrow> nat \<Rightarrow> Keypoint option" where
  "getKeypoint pose index =
     (if index < length (keypoints pose) then
        (let kp = keypoints pose ! index
         in if kp_score kp > 0.3 then Some kp else None)
      else None)"

definition getMeanConfidence :: "Keypoint option list \<Rightarrow> real" where
  "getMeanConfidence kps =
     (let validKeypoints = List.map_filter (\<lambda>kp. kp) kps
      in if length validKeypoints = 0 then 0
         else foldl (\<lambda>sum kp. sum + kp_score kp) 0 validKeypoints
                / real (length validKeypoints))"

subsection \<open>The base class\<close>

definition new_ExerciseDetector :: ExerciseDetector where
  "new_ExerciseDetector =
     \<lparr> lastReps = 0, isInDownPosition = False, lastAngle = 0,
       formQuality = ''Good'', frameCount = 0, lastRepFrameCount = 0 \<rparr>"

definition getReps :: "ExerciseDetector \<Rightarrow> int" where
  "getReps this = lastReps this"

definition getFormFeedback :: "ExerciseDetector \<Rightarrow> string" where
  "getFormFeedback this = formQuality this"

definition reset :: "ExerciseDetector \<Rightarrow> ExerciseDetector" where
  "reset this =
     this\<lparr> lastReps := 0, isInDownPosition := False, lastAngle := 0,
           frameCount := 0, lastRepFrameCount := 0 \<rparr>"

subsection \<open>Push-up detector\<close>

definition PushupDetector_startPositionThreshold :: real where
  "PushupDetector_startPositionThreshold = 150"

definition PushupDetector_endPositionThreshold :: real where
  "PushupDetector_endPositionThreshold = 25"

definition PushupDetector_framesBetweenReps :: int where
  "PushupDetector_framesBetweenReps = 10"

definition PushupDetector_minFormQuality :: real where
  "PushupDetector_minFormQuality = 0.5"

text \<open>
  The end of \<open>PushupDetector.detectRep\<close> (source lines 111 to 139), reached once the confidence
  gate has passed: the phase update and the transition evaluation. \<open>this2\<close> is the
  detector after the frame counter and \<open>lastAngle\<close> have been written.
\<close>

definition PushupDetector_evaluate :: "real \<Rightarrow> ExerciseDetector \<Rightarrow> bool \<times> ExerciseDetector" where
  "PushupDetector_evaluate elbowAngle this2 =
     (let wasDown = isInDownPosition this2;
          this3 = this2\<lparr>isInDownPosition :=
                    elbowAngle < PushupDetector_endPositionThreshold\<rparr>
      in if wasDown \<and> \<not> isInDownPosition this3 then
           (if elbowAngle > PushupDetector_startPositionThreshold
               \<and> frameCount this3 - lastRepFrameCount this3
                   > PushupDetector_framesBetweenReps then
              (True, this3\<lparr>lastReps := lastReps this3 + 1,
                           lastRepFrameCount := frameCount this3,
                           formQuality := ''Perfect! Rep counted''\<rparr>)
            else if elbowAngle < PushupDetector_startPositionThreshold then
              (False, this3\<lparr>formQuality := ''Incomplete rep - extend fully''\<rparr>)
            else (False, this3))
         else
           (if isInDownPosition this3 then
              (if elbowAngle < 15 then
                 (False, this3\<lparr>formQuality := ''Perfect form! Keep going''\<rparr>)
               else if elbowAngle < 50 then
                 (False, this3\<lparr>formQuality := ''Good form - go lower''\<rparr>)
               else
                 (False, this3\<lparr>formQuality := ''Go lower for full rep''\<rparr>))
            else
              (False, this3\<lparr>formQuality := ''Ready - Lower your body''\<rparr>)))"

definition PushupDetector_detectRep :: "Pose \<Rightarrow> ExerciseDetector \<Rightarrow> bool \<times> ExerciseDetector" where
  "PushupDetector_detectRep pose this0 =
     (let this1 = this0\<lparr>frameCount := frameCount this0 + 1\<rparr>;
          leftShoulder = getKeypoint pose 5;
          leftElbow = getKeypoint pose 7;
          leftWrist = getKeypoint pose 9;
          rightShoulder = getKeypoint pose 6;
          rightElbow = getKeypoint pose 8;
          rightWrist = getKeypoint pose 10
      in case (leftElbow, rightElbow) of
           (Some le, Some re) \<Rightarrow>
             (let confidence = getMeanConfidence
                    [leftShoulder, leftElbow, leftWrist, rightShoulder, rightElbow, rightWrist];
                  elbowAngle0 = 180;
                  elbowAngle1 = (case (leftShoulder, leftWrist) of
                       (Some ls, Some lw) \<Rightarrow> min elbowAngle0 (calculateAngle ls le lw)
                     | _ \<Rightarrow> elbowAngle0);
                  elbowAngle = (case (rightShoulder, rightWrist) of
                       (Some rs, Some rw) \<Rightarrow> min elbowAngle1 (calculateAngle rs re rw)
                     | _ \<Rightarrow> elbowAngle1);
                  this2 = this1\<lparr>lastAngle := elbowAngle\<rparr>
              in if confidence < PushupDetector_minFormQuality then
                   (False, this2\<lparr>formQuality := ''Low visibility - adjust your position''\<rparr>)
                 else PushupDetector_evaluate elbowAngle this2)
         | _ \<Rightarrow> (False, this1\<lparr>formQuality := ''Position body with arms visible''\<rparr>))"

subsection \<open>Squat detector\<close>

definition SquatDetector_startPositionThreshold :: real where
  "SquatDetector_startPositionThreshold = 140"

definition SquatDetector_endPositionThreshold :: real where
  "SquatDetector_endPositionThreshold = 85"

definition SquatDetector_framesBetweenReps :: int where
  "SquatDetector_framesBetweenReps = 10"

definition SquatDetector_minFormQuality :: real where
  "SquatDetector_minFormQuality = 0.5"

text \<open>
  The end of \<open>SquatDetector.detectRep\<close> (source lines 186 to 214), reached once the confidence
  gate has passed: the phase update and the transition evaluation. \<open>this2\<close> is the
  detector after the frame counter and \<open>lastAngle\<close> have been written.
\<close>

definition SquatDetector_evaluate :: "real \<Rightarrow> ExerciseDetector \<Rightarrow> bool \<times> ExerciseDetector" where
  "SquatDetector_evaluate kneeAngle this2 =
     (let wasDown = isInDownPosition this2;
          this3 = this2\<lparr>isInDownPosition :=
                    kneeAngle < SquatDetector_endPositionThreshold\<rparr>
      in if wasDown \<and> \<not> isInDownPosition this3 then
           (if kneeAngle > SquatDetector_startPositionThreshold
               \<and> frameCount this3 - lastRepFrameCount this3
                   > SquatDetector_framesBetweenReps then
              (True, this3\<lparr>lastReps := lastReps this3 + 1,
                           lastRepFrameCount := frameCount this3,
                           formQuality := ''Perfect! Rep counted''\<rparr>)
            else if kneeAngle < SquatDetector_startPositionThreshold then
              (False, this3\<lparr>formQuality := ''Incomplete rep - stand up fully''\<rparr>)
            else (False, this3))
         else
           (if isInDownPosition this3 then
              (if kneeAngle < 80 then
                 (False, this3\<lparr>formQuality := ''Excellent depth!''\<rparr>)
               else if kneeAngle < 100 then
                 (False, this3\<lparr>formQuality := ''Good depth - keep going''\<rparr>)
               else
                 (False, this3\<lparr>formQuality := ''Go lower for full squat''\<rparr>))
            else
              (False, this3\<lparr>formQuality := ''Ready - Squat down''\<rparr>)))"

definition SquatDetector_detectRep :: "Pose \<Rightarrow> ExerciseDetector \<Rightarrow> bool \<times> ExerciseDetector" where
  "SquatDetector_detectRep pose this0 =
     (let this1 = this0\<lparr>frameCount := frameCount this0 + 1\<rparr>;
          leftHip = getKeypoint pose 11;
          leftKnee = getKeypoint pose 13;
          leftAnkle = getKeypoint pose 15;
          rightHip = getKeypoint pose 12;
          rightKnee = getKeypoint pose 14;
          rightAnkle = getKeypoint pose 16
      in case (leftKnee, rightKnee) of
           (Some lk, Some rk) \<Rightarrow>
             (let confidence = getMeanConfidence
                    [leftHip, leftKnee, leftAnkle, rightHip, rightKnee, rightAnkle];
                  kneeAngle0 = 180;
                  kneeAngle1 = (case (leftHip, leftAnkle) of
                       (Some lh, Some la) \<Rightarrow> min kneeAngle0 (calculateAngle lh lk la)
                     | _ \<Rightarrow> kneeAngle0);
                  kneeAngle = (case (rightHip, rightAnkle) of
                       (Some rh, Some ra) \<Rightarrow> min kneeAngle1 (calculateAngle rh rk ra)
                     | _ \<Rightarrow> kneeAngle1);
                  this2 = this1\<lparr>lastAngle := kneeAngle\<rparr>
              in if confidence < SquatDetector_minFormQuality then
                   (False, this2\<lparr>formQuality := ''Low visibility - adjust your position''\<rparr>)
                 else SquatDetector_evaluate kneeAngle this2)
         | _ \<Rightarrow> (False, this1\<lparr>formQuality := ''Position legs for detection''\<rparr>))"

subsection \<open>Sit-up detector\<close>

definition SitupDetector_startPositionThreshold :: real where
  "SitupDetector_startPositionThreshold = 140"

definition SitupDetector_endPositionThreshold :: real where
  "SitupDetector_endPositionThreshold = 100"

definition SitupDetector_framesBetweenReps :: int where
  "SitupDetector_framesBetweenReps = 10"

definition SitupDetector_minFormQuality :: real where
  "SitupDetector_minFormQuality = 0.5"

text \<open>
  The end of \<open>SitupDetector.detectRep\<close> (source lines 255 to 281), reached once the confidence
  gate has passed: the phase update and the transition evaluation. \<open>this2\<close> is the
  detector after the frame counter and \<open>lastAngle\<close> have been written.
\<close>

definition SitupDetector_evaluate :: "real \<Rightarrow> ExerciseDetector \<Rightarrow> bool \<times> ExerciseDetector" where
  "SitupDetector_evaluate normalizedAngle this2 =
     (let wasDown = isInDownPosition this2;
          this3 = this2\<lparr>isInDownPosition :=
                    normalizedAngle < SitupDetector_endPositionThreshold\<rparr>
      in if wasDown \<and> \<not> isInDownPosition this3 then
           (if normalizedAngle > SitupDetector_startPositionThreshold
               \<and> frameCount this3 - lastRepFrameCount this3
                   > SitupDetector_framesBetweenReps then
              (True, this3\<lparr>lastReps := lastReps this3 + 1,
                           lastRepFrameCount := frameCount this3,
                           formQuality := ''Perfect! Rep counted''\<rparr>)
            else if normalizedAngle < SitupDetector_startPositionThreshold then
              (False, this3\<lparr>formQuality := ''Incomplete rep - lie back fully''\<rparr>)
            else (False, this3))
         else
           (if isInDownPosition this3 then
              (if normalizedAngle < 90 then
                 (False, this3\<lparr>formQuality := ''Great curl! Complete it''\<rparr>)
               else
                 (False, this3\<lparr>formQuality := ''Keep curling up''\<rparr>))
            else
              (False, this3\<lparr>formQuality := ''Ready - Curl up''\<rparr>)))"

definition SitupDetector_detectRep :: "Pose \<Rightarrow> ExerciseDetector \<Rightarrow> bool \<times> ExerciseDetector" where
  "SitupDetector_detectRep pose this0 =
     (let this1 = this0\<lparr>frameCount := frameCount this0 + 1\<rparr>;
          nose = getKeypoint pose 0;
          leftHip = getKeypoint pose 11;
          rightHip = getKeypoint pose 12;
          leftShoulder = getKeypoint pose 5;
          rightShoulder = getKeypoint pose 6
      in case (nose, leftHip, rightHip) of
           (Some n, Some lh, Some rh) \<Rightarrow>
             (let confidence = getMeanConfidence
                    [nose, leftHip, rightHip, leftShoulder, rightShoulder];
                  hipMidpoint = \<lparr> kp_x = (kp_x lh + kp_x rh) / 2,
                                  kp_y = (kp_y lh + kp_y rh) / 2,
                                  kp_score = 0.5 \<rparr>;
                  torsoDistance = calculateDistance n hipMidpoint;
                  normalizedAngle = min (torsoDistance * 50) 180;
                  this2 = this1\<lparr>lastAngle := normalizedAngle\<rparr>
              in if confidence < SitupDetector_minFormQuality then
                   (False, this2\<lparr>formQuality := ''Low visibility - adjust position''\<rparr>)
                 else SitupDetector_evaluate normalizedAngle this2)
         | _ \<Rightarrow> (False, this1\<lparr>formQuality := ''Position your body fully''\<rparr>))"

subsection \<open>The three variants behind one interface\<close>

datatype Exercise = Pushup | Squat | Situp

fun detectRep :: "Exercise \<Rightarrow> Pose \<Rightarrow> ExerciseDetector \<Rightarrow> bool \<times> ExerciseDetector" where
  "detectRep Pushup pose this = PushupDetector_detectRep pose this"
| "detectRep Squat pose this = SquatDetector_detectRep pose this"
| "detectRep Situp pose this = SitupDetector_detectRep pose this"

fun evaluate :: "Exercise \<Rightarrow> real \<Rightarrow> ExerciseDetector \<Rightarrow> bool \<times> ExerciseDetector" where
  "evaluate Pushup m this = PushupDetector_evaluate m this"
| "evaluate Squat m this = SquatDetector_evaluate m this"
| "evaluate Situp m this = SitupDetector_evaluate m this"

text \<open>
  The frame loop: one \<open>detectRep\<close> call per pose, in order. \<open>detectReps\<close> returns the
  return value of every call and the detector after the last one.
\<close>

fun detectReps :: "Exercise \<Rightarrow> Pose list \<Rightarrow> ExerciseDetector \<Rightarrow> bool list \<times> ExerciseDetector" where
  "detectReps e [] this = ([], this)"
| "detectReps e (pose # poses) this =
     (let (r, this') = detectRep e pose this;
          (rs, this'') = detectReps e poses this'
      in (r # rs, this''))"

subsection \<open>What a frame shows: landmarks, confidence and tracked metric\<close>

text \<open>
  The quantities that \<open>detectRep\<close> computes from the pose alone, named so that
  properties of a call can refer to them. \<open>metric\<close> is the value bound to
  \<open>elbowAngle\<close>, \<open>kneeAngle\<close> or \<open>normalizedAngle\<close>; it is \<open>None\<close> when an essential
  landmark is not visible, where the source returns before computing it.
  \<open>confidence\<close> is the argument of the \<open>minFormQuality\<close> comparison.
\<close>

fun essentialLandmarks :: "Exercise \<Rightarrow> nat list" where
  "essentialLandmarks Pushup = [7, 8]"
| "essentialLandmarks Squat = [13, 14]"
| "essentialLandmarks Situp = [0, 11, 12]"

fun involvedLandmarks :: "Exercise \<Rightarrow> nat list" where
  "involvedLandmarks Pushup = [5, 7, 9, 6, 8, 10]"
| "involvedLandmarks Squat = [11, 13, 15, 12, 14, 16]"
| "involvedLandmarks Situp = [0, 11, 12, 5, 6]"

definition essentialMissing :: "Exercise \<Rightarrow> Pose \<Rightarrow> bool" where
  "essentialMissing e pose = list_ex (\<lambda>i. getKeypoint pose i = None) (essentialLandmarks e)"

definition confidence :: "Exercise \<Rightarrow> Pose \<Rightarrow> real" where
  "confidence e pose = getMeanConfidence (map (getKeypoint pose) (involvedLandmarks e))"

definition jointAngle :: "Pose \<Rightarrow> nat \<Rightarrow> nat \<Rightarrow> nat \<Rightarrow> real" where
  "jointAngle pose i j k =
     (case (getKeypoint pose i, getKeypoint pose j, getKeypoint pose k) of
        (Some a, Some b, Some c) \<Rightarrow> calculateAngle a b c
      | _ \<Rightarrow> 180)"

fun metric :: "Exercise \<Rightarrow> Pose \<Rightarrow> real option" where
  "metric Pushup pose =
     (if essentialMissing Pushup pose then None
      else Some (min (min 180 (jointAngle pose 5 7 9)) (jointAngle pose 6 8 10)))"
| "metric Squat pose =
     (if essentialMissing Squat pose then None
      else Some (min (min 180 (jointAngle pose 11 13 15)) (jointAngle pose 12 14 16)))"
| "metric Situp pose =
     (case (getKeypoint pose 0, getKeypoint pose 11, getKeypoint pose 12) of
        (Some n, Some lh, Some rh) \<Rightarrow>
          Some (min (calculateDistance n
                       \<lparr> kp_x = (kp_x lh + kp_x rh) / 2, kp_y = (kp_y lh + kp_y rh) / 2,
                         kp_score = 0.5 \<rparr> * 50) 180)
      | _ \<Rightarrow> None)"

fun startPositionThreshold :: "Exercise \<Rightarrow> real" where
  "startPositionThreshold Pushup = PushupDetector_startPositionThreshold"
| "startPositionThreshold Squat = SquatDetector_startPositionThreshold"
| "startPositionThreshold Situp = SitupDetector_startPositionThreshold"

fun endPositionThreshold :: "Exercise \<Rightarrow> real" where
  "endPositionThreshold Pushup = PushupDetector_endPositionThreshold"
| "endPositionThreshold Squat = SquatDetector_endPositionThreshold"
| "endPositionThreshold Situp = SitupDetector_endPositionThreshold"

fun framesBetweenReps :: "Exercise \<Rightarrow> int" where
  "framesBetweenReps Pushup = PushupDetector_framesBetweenReps"
| "framesBetweenReps Squat = SquatDetector_framesBetweenReps"
| "framesBetweenReps Situp = SitupDetector_framesBetweenReps"

fun minFormQuality :: "Exercise \<Rightarrow> real" where
  "minFormQuality Pushup = PushupDetector_minFormQuality"
| "minFormQuality Squat = SquatDetector_minFormQuality"
| "minFormQuality Situp = SitupDetector_minFormQuality"

text \<open>The feedback strings of the three early exits and of the rejected transition.\<close>

fun positionFeedback :: "Exercise \<Rightarrow> string" where
  "positionFeedback Pushup = ''Position body with arms visible''"
| "positionFeedback Squat = ''Position legs for detection''"
| "positionFeedback Situp = ''Position your body fully''"

fun lowVisibilityFeedback :: "Exercise \<Rightarrow> string" where
  "lowVisibilityFeedback Pushup = ''Low visibility - adjust your position''"
| "lowVisibilityFeedback Squat = ''Low visibility - adjust your position''"
| "lowVisibilityFeedback Situp = ''Low visibility - adjust position''"

fun incompleteFeedback :: "Exercise \<Rightarrow> string" where
  "incompleteFeedback Pushup = ''Incomplete rep - extend fully''"
| "incompleteFeedback Squat = ''Incomplete rep - stand up fully''"
| "incompleteFeedback Situp = ''Incomplete rep - lie back fully''"

subsection \<open>Frames used in the scenarios\<close>

text \<open>
  Concrete poses in the 17-landmark layout. In \<open>limbPose sc d\<close> both arms and both legs
  are bent to the angle \<open>d\<close> (in degrees): elbows and knees sit at the origin, wrists and
  ankles at \<open>(1, 0)\<close>, shoulders and hips on the unit circle at \<open>d\<close> degrees. In
  \<open>torsoPose sc d\<close> the nose is at the origin and both hips at distance \<open>d / 50\<close>.
  Every landmark has confidence \<open>sc\<close>.
\<close>

definition kpAt :: "real \<Rightarrow> real \<Rightarrow> real \<Rightarrow> Keypoint" where
  "kpAt sc px py = \<lparr> kp_x = px, kp_y = py, kp_score = sc \<rparr>"

definition emptyPose :: Pose where
  "emptyPose = \<lparr> keypoints = [], pose_score = 0 \<rparr>"

definition limbPose :: "real \<Rightarrow> real \<Rightarrow> Pose" where
  "limbPose sc d =
     (let origin = kpAt sc 0 0;
          far = kpAt sc (cos (d * pi / 180)) (sin (d * pi / 180));
          near = kpAt sc 1 0
      in \<lparr> keypoints = [origin, origin, origin, origin, origin, far, far, origin, origin,
                         near, near, far, far, origin, origin, near, near],
           pose_score = sc \<rparr>)"

definition torsoPose :: "real \<Rightarrow> real \<Rightarrow> Pose" where
  "torsoPose sc d =
     (let origin = kpAt sc 0 0;
          hip = kpAt sc (d / 50) 0
      in \<lparr> keypoints = [origin, origin, origin, origin, origin, origin, origin, origin,
                         origin, origin, origin, hip, hip, origin, origin, origin, origin],
           pose_score = sc \<rparr>)"

fun framePose :: "Exercise \<Rightarrow> real \<Rightarrow> real \<Rightarrow> Pose" where
  "framePose Pushup sc d = limbPose sc d"
| "framePose Squat sc d = limbPose sc d"
| "framePose Situp sc d = torsoPose sc d"

definition shortPose :: "nat \<Rightarrow> Pose \<Rightarrow> Pose" where
  "shortPose n pose = pose\<lparr>keypoints := take n (keypoints pose)\<rparr>"

definition fullConfidence :: "Pose \<Rightarrow> bool" where
  "fullConfidence pose = list_all (\<lambda>kp. kp_score kp = 1) (keypoints pose)"

text \<open>
  A session start used in the scenarios: nine frames with nobody in view, then one
  frame in the down position (metric 10). \<open>afterWarmup\<close> is the detector after these
  ten calls on a fresh instance. \<open>tenFramesAfterRep\<close> continues with an up frame
  (metric 160, the 11th call) and nine more down frames, 20 calls in all.
\<close>

definition warmup :: "Exercise \<Rightarrow> Pose list" where
  "warmup e = replicate 9 emptyPose @ [framePose e 1 10]"

definition afterWarmup :: "Exercise \<Rightarrow> ExerciseDetector" where
  "afterWarmup e = snd (detectReps e (warmup e) new_ExerciseDetector)"

definition tenFramesAfterRep :: "Exercise \<Rightarrow> ExerciseDetector" where
  "tenFramesAfterRep e =
     snd (detectReps e (framePose e 1 160 # replicate 9 (framePose e 1 10)) (afterWarmup e))"

section \<open>Properties\<close>

subsection \<open>The scenario frames show the intended metric\<close>

lemma kpAt_sel [simp]:
  "kp_x (kpAt sc px py) = px" "kp_y (kpAt sc px py) = py" "kp_score (kpAt sc px py) = sc"
  by (simp_all add: kpAt_def)

lemma calculateAngle_unit:
  assumes "0 \<le> d" "d \<le> 180"
  shows "calculateAngle (kpAt sc (cos (d * pi / 180)) (sin (d * pi / 180))) (kpAt sc 0 0) (kpAt sc 1 0) = d"
proof -
  define t where "t = d * pi / 180"
  have r: "0 \<le> t" "t \<le> pi" using assms by (auto simp: t_def field_simps)
  have ac: "arccos (cos t) = t" using r by (rule arccos_cos)
  have cl: "min 1 (max (- 1) (cos t)) = cos t"
    using cos_le_one[of t] cos_ge_minus_one[of t] by linarith
  have ne: "\<not> (cos t = 0 \<and> sin t = 0)"
    using sin_zero_abs_cos_one[of t] by auto
  have "calculateAngle (kpAt sc (cos t) (sin t)) (kpAt sc 0 0) (kpAt sc 1 0) = t * (180 / pi)"
    using ne by (auto simp: calculateAngle_def Let_def cl ac)
  then show ?thesis by (simp add: t_def)
qed

lemma metric_limbPose:
  assumes "0 \<le> d" "d \<le> 180" "0.3 < sc"
  shows "metric Pushup (limbPose sc d) = Some d" "metric Squat (limbPose sc d) = Some d"
  using assms calculateAngle_unit[OF assms(1,2), of sc]
  by (simp_all add: essentialMissing_def jointAngle_def getKeypoint_def limbPose_def Let_def)

lemma metric_torsoPose:
  assumes "0 \<le> d" "0.3 < sc"
  shows "metric Situp (torsoPose sc d) = Some (min d 180)"
  using assms
  by (simp add: getKeypoint_def torsoPose_def Let_def calculateDistance_def)

lemma confidence_framePose:
  assumes "0.3 < sc"
  shows "confidence e (framePose e sc d) = sc"
  using assms
  by (cases e) (simp_all add: confidence_def getMeanConfidence_def getKeypoint_def limbPose_def torsoPose_def
        Let_def List.map_filter_simps)

lemma metric_emptyPose: "metric e emptyPose = None"
  by (cases e) (simp_all add: essentialMissing_def getKeypoint_def emptyPose_def)


subsection \<open>One call, in terms of what the frame shows\<close>

lemma metric_None_iff: "metric e pose = None \<longleftrightarrow> essentialMissing e pose"
  by (cases e) (simp_all add: essentialMissing_def split: option.split)

lemma getKeypoint_None_iff:
  "getKeypoint pose i = None \<longleftrightarrow>
     length (keypoints pose) \<le> i \<or> \<not> kp_score (keypoints pose ! i) > 0.3"
  by (simp add: getKeypoint_def Let_def not_less)

lemma PushupDetector_detectRep_unfold:
  "PushupDetector_detectRep pose s =
    (case metric Pushup pose of
       None \<Rightarrow> (False, s\<lparr>frameCount := frameCount s + 1, formQuality := positionFeedback Pushup\<rparr>)
     | Some m \<Rightarrow>
        if confidence Pushup pose < minFormQuality Pushup
        then (False, s\<lparr>frameCount := frameCount s + 1, lastAngle := m,
                        formQuality := lowVisibilityFeedback Pushup\<rparr>)
        else evaluate Pushup m (s\<lparr>frameCount := frameCount s + 1, lastAngle := m\<rparr>))"
proof (cases "getKeypoint pose 7")
  case None
  then show ?thesis
    by (simp add: PushupDetector_detectRep_def essentialMissing_def)
next
  case le: (Some le)
  show ?thesis
  proof (cases "getKeypoint pose 8")
    case None
    then show ?thesis
      by (simp add: PushupDetector_detectRep_def essentialMissing_def le)
  next
    case re: (Some re)
    show ?thesis
      by (simp add: PushupDetector_detectRep_def essentialMissing_def le re confidence_def
            jointAngle_def Let_def split: option.split)
  qed
qed

lemma SquatDetector_detectRep_unfold:
  "SquatDetector_detectRep pose s =
    (case metric Squat pose of
       None \<Rightarrow> (False, s\<lparr>frameCount := frameCount s + 1, formQuality := positionFeedback Squat\<rparr>)
     | Some m \<Rightarrow>
        if confidence Squat pose < minFormQuality Squat
        then (False, s\<lparr>frameCount := frameCount s + 1, lastAngle := m,
                        formQuality := lowVisibilityFeedback Squat\<rparr>)
        else evaluate Squat m (s\<lparr>frameCount := frameCount s + 1, lastAngle := m\<rparr>))"
proof (cases "getKeypoint pose 13")
  case None
  then show ?thesis
    by (simp add: SquatDetector_detectRep_def essentialMissing_def)
next
  case lk: (Some lk)
  show ?thesis
  proof (cases "getKeypoint pose 14")
    case None
    then show ?thesis
      by (simp add: SquatDetector_detectRep_def essentialMissing_def lk)
  next
    case rk: (Some rk)
    show ?thesis
      by (simp add: SquatDetector_detectRep_def essentialMissing_def lk rk confidence_def
            jointAngle_def Let_def split: option.split)
  qed
qed

lemma SitupDetector_detectRep_unfold:
  "SitupDetector_detectRep pose s =
    (case metric Situp pose of
       None \<Rightarrow> (False, s\<lparr>frameCount := frameCount s + 1, formQuality := positionFeedback Situp\<rparr>)
     | Some m \<Rightarrow>
        if confidence Situp pose < minFormQuality Situp
        then (False, s\<lparr>frameCount := frameCount s + 1, lastAngle := m,
                        formQuality := lowVisibilityFeedback Situp\<rparr>)
        else evaluate Situp m (s\<lparr>frameCount := frameCount s + 1, lastAngle := m\<rparr>))"
proof (cases "getKeypoint pose 0")
  case None
  then show ?thesis
    by (simp add: SitupDetector_detectRep_def)
next
  case n: (Some n)
  show ?thesis
  proof (cases "getKeypoint pose 11")
    case None
    then show ?thesis
      by (simp add: SitupDetector_detectRep_def n)
  next
    case lh: (Some lh)
    show ?thesis
    proof (cases "getKeypoint pose 12")
      case None
      then show ?thesis
        by (simp add: SitupDetector_detectRep_def n lh)
    next
      case rh: (Some rh)
      show ?thesis
        by (simp add: SitupDetector_detectRep_def n lh rh confidence_def Let_def)
    qed
  qed
qed

lemma detectRep_unfold:
  "detectRep e pose s =
    (case metric e pose of
       None \<Rightarrow> (False, s\<lparr>frameCount := frameCount s + 1, formQuality := positionFeedback e\<rparr>)
     | Some m \<Rightarrow>
        if confidence e pose < minFormQuality e
        then (False, s\<lparr>frameCount := frameCount s + 1, lastAngle := m,
                        formQuality := lowVisibilityFeedback e\<rparr>)
        else evaluate e m (s\<lparr>frameCount := frameCount s + 1, lastAngle := m\<rparr>))"
proof (cases e)
  case Pushup
  then show ?thesis by (simp only: detectRep.simps PushupDetector_detectRep_unfold)
next
  case Squat
  then show ?thesis by (simp only: detectRep.simps SquatDetector_detectRep_unfold)
next
  case Situp
  then show ?thesis by (simp only: detectRep.simps SitupDetector_detectRep_unfold)
qed

declare detectRep.simps [simp del]
declare metric.simps [simp del]

lemmas threshold_defs =
  PushupDetector_startPositionThreshold_def PushupDetector_endPositionThreshold_def
  PushupDetector_framesBetweenReps_def PushupDetector_minFormQuality_def
  SquatDetector_startPositionThreshold_def SquatDetector_endPositionThreshold_def
  SquatDetector_framesBetweenReps_def SquatDetector_minFormQuality_def
  SitupDetector_startPositionThreshold_def SitupDetector_endPositionThreshold_def
  SitupDetector_framesBetweenReps_def SitupDetector_minFormQuality_def

lemmas evaluate_defs =
  PushupDetector_evaluate_def SquatDetector_evaluate_def SitupDetector_evaluate_def

lemma evaluate_fst:
  "fst (evaluate e m s) \<longleftrightarrow>
     isInDownPosition s \<and> \<not> m < endPositionThreshold e \<and> m > startPositionThreshold e
       \<and> frameCount s - lastRepFrameCount s > framesBetweenReps e"
  by (cases e) (auto simp: evaluate_defs Let_def)

lemma evaluate_isInDownPosition:
  "isInDownPosition (snd (evaluate e m s)) \<longleftrightarrow> m < endPositionThreshold e"
  by (cases e) (simp_all add: evaluate_defs Let_def)

lemma evaluate_lastReps:
  "lastReps (snd (evaluate e m s)) = (if fst (evaluate e m s) then lastReps s + 1 else lastReps s)"
  by (cases e) (auto simp: evaluate_defs Let_def)

lemma evaluate_frameCount: "frameCount (snd (evaluate e m s)) = frameCount s"
  by (cases e) (simp_all add: evaluate_defs Let_def)

lemma evaluate_lastRepFrameCount:
  "lastRepFrameCount (snd (evaluate e m s)) =
     (if fst (evaluate e m s) then frameCount s else lastRepFrameCount s)"
  by (cases e) (auto simp: evaluate_defs Let_def)

lemma evaluate_lastAngle: "lastAngle (snd (evaluate e m s)) = lastAngle s"
  by (cases e) (simp_all add: evaluate_defs Let_def)

lemma evaluate_counted_feedback:
  "fst (evaluate e m s) \<Longrightarrow> formQuality (snd (evaluate e m s)) = ''Perfect! Rep counted''"
  by (cases e) (simp_all add: evaluate_defs Let_def split: if_splits)

lemma evaluate_incomplete_feedback:
  "isInDownPosition s \<Longrightarrow> \<not> m < endPositionThreshold e \<Longrightarrow> m < startPositionThreshold e \<Longrightarrow>
   formQuality (snd (evaluate e m s)) = incompleteFeedback e"
  by (cases e) (simp_all add: evaluate_defs Let_def)

lemma evaluate_stale_feedback:
  "isInDownPosition s \<Longrightarrow> \<not> m < endPositionThreshold e \<Longrightarrow> \<not> m < startPositionThreshold e \<Longrightarrow>
   \<not> fst (evaluate e m s) \<Longrightarrow> formQuality (snd (evaluate e m s)) = formQuality s"
  by (cases e) (auto simp: evaluate_defs Let_def split: if_splits)

lemma detectRep_fst:
  "fst (detectRep e pose s) \<longleftrightarrow>
     (case metric e pose of
        None \<Rightarrow> False
      | Some m \<Rightarrow> \<not> confidence e pose < minFormQuality e \<and> isInDownPosition s
          \<and> \<not> m < endPositionThreshold e \<and> m > startPositionThreshold e
          \<and> frameCount s + 1 - lastRepFrameCount s > framesBetweenReps e)"
  by (simp add: detectRep_unfold evaluate_fst split: option.split)

lemma detectRep_lastReps:
  "lastReps (snd (detectRep e pose s)) =
     (if fst (detectRep e pose s) then lastReps s + 1 else lastReps s)"
  by (simp add: detectRep_unfold evaluate_lastReps split: option.split)

lemma detectRep_frameCount: "frameCount (snd (detectRep e pose s)) = frameCount s + 1"
  by (simp add: detectRep_unfold evaluate_frameCount split: option.split)

lemma detectRep_lastRepFrameCount:
  "lastRepFrameCount (snd (detectRep e pose s)) =
     (if fst (detectRep e pose s) then frameCount s + 1 else lastRepFrameCount s)"
  by (simp add: detectRep_unfold evaluate_lastRepFrameCount split: option.split)

lemma detectRep_isInDownPosition:
  "isInDownPosition (snd (detectRep e pose s)) =
     (case metric e pose of
        None \<Rightarrow> isInDownPosition s
      | Some m \<Rightarrow> if confidence e pose < minFormQuality e then isInDownPosition s
                  else m < endPositionThreshold e)"
  by (simp add: detectRep_unfold evaluate_isInDownPosition split: option.split)

lemma detectRep_pass:
  "metric e pose = Some m \<Longrightarrow> \<not> confidence e pose < minFormQuality e \<Longrightarrow>
   detectRep e pose s = evaluate e m (s\<lparr>frameCount := frameCount s + 1, lastAngle := m\<rparr>)"
  by (simp add: detectRep_unfold)

lemma detectRep_missing:
  "metric e pose = None \<Longrightarrow>
   detectRep e pose s =
     (False, s\<lparr>frameCount := frameCount s + 1, formQuality := positionFeedback e\<rparr>)"
  by (simp add: detectRep_unfold)

lemma detectRep_low:
  "metric e pose = Some m \<Longrightarrow> confidence e pose < minFormQuality e \<Longrightarrow>
   detectRep e pose s =
     (False, s\<lparr>frameCount := frameCount s + 1, lastAngle := m,
               formQuality := lowVisibilityFeedback e\<rparr>)"
  by (simp add: detectRep_unfold)

subsection \<open>Sequences of calls\<close>

lemma detectReps_append:
  "detectReps e (ps @ qs) s =
     (fst (detectReps e ps s) @ fst (detectReps e qs (snd (detectReps e ps s))),
      snd (detectReps e qs (snd (detectReps e ps s))))"
  by (induction ps arbitrary: s) (simp_all add: split_beta Let_def)

lemma detectReps_length: "length (fst (detectReps e ps s)) = length ps"
  by (induction ps arbitrary: s) (simp_all add: split_beta Let_def)

lemma detectReps_take:
  "take n (fst (detectReps e ps s)) = fst (detectReps e (take n ps) s)"
proof -
  have "fst (detectReps e (take n ps @ drop n ps) s)
        = fst (detectReps e (take n ps) s)
          @ fst (detectReps e (drop n ps) (snd (detectReps e (take n ps) s)))"
    by (simp only: detectReps_append fst_conv)
  then show ?thesis
    by (simp add: detectReps_length min_def)
qed

lemma detectReps_lastReps_mono: "lastReps s \<le> lastReps (snd (detectReps e ps s))"
proof (induction ps arbitrary: s)
  case Nil
  show ?case by simp
next
  case (Cons p ps)
  have "lastReps s \<le> lastReps (snd (detectRep e p s))"
    by (simp add: detectRep_lastReps)
  also have "\<dots> \<le> lastReps (snd (detectReps e ps (snd (detectRep e p s))))"
    by (rule Cons.IH)
  finally show ?case by (simp add: split_beta Let_def)
qed

lemma detectReps_debounce:
  "frameCount s + int (length ps) - lastRepFrameCount s \<le> 10 \<Longrightarrow>
   fst (detectReps e ps s) = replicate (length ps) False
   \<and> lastReps (snd (detectReps e ps s)) = lastReps s"
proof (induction ps arbitrary: s)
  case Nil
  show ?case by simp
next
  case (Cons p ps)
  have fb: "framesBetweenReps e = 10"
    by (cases e) (simp_all add: threshold_defs)
  have no: "\<not> fst (detectRep e p s)"
    using Cons.prems by (simp add: detectRep_fst fb split: option.split)
  let ?s' = "snd (detectRep e p s)"
  have "frameCount ?s' + int (length ps) - lastRepFrameCount ?s' \<le> 10"
    using Cons.prems no by (simp add: detectRep_frameCount detectRep_lastRepFrameCount)
  from Cons.IH[OF this] no show ?case
    by (simp add: split_beta Let_def detectRep_lastReps)
qed

subsection \<open>Aggregate confidence of a fully visible pose\<close>

lemma foldl_scores_one:
  "\<forall>k\<in>set ks. kp_score k = 1 \<Longrightarrow>
   foldl (\<lambda>sum kp. sum + kp_score kp) a ks = a + real (length ks)"
  by (induction ks arbitrary: a) simp_all

lemma getMeanConfidence_all_one:
  assumes "\<forall>k. Some k \<in> set kps \<longrightarrow> kp_score k = 1" and "Some k0 \<in> set kps"
  shows "getMeanConfidence kps = 1"
proof -
  let ?v = "List.map_filter (\<lambda>kp. kp) kps"
  have s: "set ?v = {k. Some k \<in> set kps}"
    by (induction kps) (auto simp: List.map_filter_simps split: option.splits)
  then have "k0 \<in> set ?v" using assms(2) by simp
  then have ne: "length ?v \<noteq> 0" by auto
  have "\<forall>k\<in>set ?v. kp_score k = 1" using s assms(1) by simp
  then have "foldl (\<lambda>sum kp. sum + kp_score kp) 0 ?v = real (length ?v)"
    by (simp add: foldl_scores_one)
  then show ?thesis using ne by (simp add: getMeanConfidence_def Let_def)
qed

lemma getKeypoint_in_set: "getKeypoint pose i = Some k \<Longrightarrow> k \<in> set (keypoints pose)"
  by (auto simp: getKeypoint_def Let_def split: if_splits)

lemma confidence_fullConfidence:
  assumes "fullConfidence pose" and "metric e pose = Some m"
  shows "confidence e pose = 1"
proof -
  have a: "\<forall>k. Some k \<in> set (map (getKeypoint pose) (involvedLandmarks e)) \<longrightarrow> kp_score k = 1"
    using assms(1) getKeypoint_in_set[of pose]
    by (fastforce simp: fullConfidence_def list_all_iff)
  have "\<not> essentialMissing e pose" using assms(2) metric_None_iff[of e pose] by simp
  then have "getKeypoint pose (hd (essentialLandmarks e)) \<noteq> None"
    by (cases e) (simp_all add: essentialMissing_def)
  then obtain k0 where k0: "getKeypoint pose (hd (essentialLandmarks e)) = Some k0"
    by blast
  have "hd (essentialLandmarks e) \<in> set (involvedLandmarks e)"
    by (cases e) simp_all
  then have "getKeypoint pose (hd (essentialLandmarks e))
      \<in> set (map (getKeypoint pose) (involvedLandmarks e))"
    by (simp only: set_map image_eqI)
  then have "Some k0 \<in> set (map (getKeypoint pose) (involvedLandmarks e))"
    by (simp only: k0)
  with a show ?thesis unfolding confidence_def by (rule getMeanConfidence_all_one)
qed

subsection \<open>The scenario sessions\<close>

lemma metric_framePose:
  "0 \<le> d \<Longrightarrow> d \<le> 180 \<Longrightarrow> 0.3 < sc \<Longrightarrow> metric e (framePose e sc d) = Some d"
  by (cases e) (simp_all add: metric_limbPose metric_torsoPose)

lemma fullConfidence_framePose: "fullConfidence (framePose e 1 d)"
  by (cases e) (simp_all add: fullConfidence_def limbPose_def torsoPose_def Let_def)

declare framePose.simps [simp del]

lemma minFormQuality_eq: "minFormQuality e = 0.5"
  by (cases e) (simp_all add: threshold_defs)

lemma framesBetweenReps_eq: "framesBetweenReps e = 10"
  by (cases e) (simp_all add: threshold_defs)

lemma thresholds_bounds:
  "25 \<le> endPositionThreshold e" "endPositionThreshold e \<le> 100"
  "140 \<le> startPositionThreshold e" "startPositionThreshold e \<le> 150"
  by (cases e; simp add: threshold_defs)+

lemma detectReps_emptyPose:
  "fst (detectReps e (replicate n emptyPose) s) = replicate n False"
  "lastReps (snd (detectReps e (replicate n emptyPose) s)) = lastReps s"
  "isInDownPosition (snd (detectReps e (replicate n emptyPose) s)) = isInDownPosition s"
  "frameCount (snd (detectReps e (replicate n emptyPose) s)) = frameCount s + int n"
  "lastRepFrameCount (snd (detectReps e (replicate n emptyPose) s)) = lastRepFrameCount s"
  by (induction n arbitrary: s;
      simp add: split_beta Let_def detectRep_missing metric_emptyPose)+

lemma detectReps_down:
  assumes "metric e p = Some m" "m < endPositionThreshold e" "\<not> confidence e p < minFormQuality e"
  shows "fst (detectReps e (replicate n p) s) = replicate n False"
    "lastReps (snd (detectReps e (replicate n p) s)) = lastReps s"
    "isInDownPosition (snd (detectReps e (replicate n p) s)) = (if n = 0 then isInDownPosition s else True)"
    "frameCount (snd (detectReps e (replicate n p) s)) = frameCount s + int n"
    "lastRepFrameCount (snd (detectReps e (replicate n p) s)) = lastRepFrameCount s"
proof -
  have f: "\<And>s. \<not> fst (detectRep e p s)"
    using assms by (simp add: detectRep_fst)
  have d: "\<And>s. isInDownPosition (snd (detectRep e p s))"
    using assms by (simp add: detectRep_isInDownPosition)
  show "fst (detectReps e (replicate n p) s) = replicate n False"
    by (induction n arbitrary: s) (simp_all add: split_beta Let_def f)
  show "lastReps (snd (detectReps e (replicate n p) s)) = lastReps s"
    by (induction n arbitrary: s) (simp_all add: split_beta Let_def f detectRep_lastReps)
  show "frameCount (snd (detectReps e (replicate n p) s)) = frameCount s + int n"
    by (induction n arbitrary: s) (simp_all add: split_beta Let_def detectRep_frameCount)
  show "lastRepFrameCount (snd (detectReps e (replicate n p) s)) = lastRepFrameCount s"
    by (induction n arbitrary: s)
       (simp_all add: split_beta Let_def f detectRep_lastRepFrameCount)
  show "isInDownPosition (snd (detectReps e (replicate n p) s))
          = (if n = 0 then isInDownPosition s else True)"
  proof (induction n arbitrary: s)
    case 0
    show ?case by simp
  next
    case (Suc n)
    show ?case using Suc.IH[of "snd (detectRep e p s)"] d[of s]
      by (simp add: split_beta Let_def)
  qed
qed

lemma down_frame:
  "metric e (framePose e 1 10) = Some 10" "10 < endPositionThreshold e"
  "\<not> confidence e (framePose e 1 10) < minFormQuality e"
  using thresholds_bounds(1)[of e]
  by (simp_all add: metric_framePose confidence_framePose minFormQuality_eq)

lemma up_frame:
  "metric e (framePose e 1 160) = Some 160" "\<not> 160 < endPositionThreshold e"
  "160 > startPositionThreshold e"
  "\<not> confidence e (framePose e 1 160) < minFormQuality e"
  using thresholds_bounds(2,4)[of e]
  by (simp_all add: metric_framePose confidence_framePose minFormQuality_eq)

lemma afterWarmup_state:
  "lastReps (afterWarmup e) = 0" "isInDownPosition (afterWarmup e)"
  "frameCount (afterWarmup e) = 10" "lastRepFrameCount (afterWarmup e) = 0"
  using detectReps_down[OF down_frame, of e 1 "snd (detectReps e (replicate 9 emptyPose) new_ExerciseDetector)"]
  by (simp_all add: afterWarmup_def warmup_def detectReps_append detectReps_emptyPose
        new_ExerciseDetector_def)

lemma replicate_10: "replicate 10 x = x # replicate 9 x"
  by (simp add: numeral_eq_Suc)

lemma warmup_results: "fst (detectReps e (warmup e) new_ExerciseDetector) = replicate 10 False"
  using detectReps_down(1)[OF down_frame, of e 1 "snd (detectReps e (replicate 9 emptyPose) new_ExerciseDetector)"]
  by (simp add: warmup_def detectReps_append detectReps_emptyPose replicate_append_same
        replicate_10 split_beta)

lemma rep_at_frame_11: "fst (detectRep e (framePose e 1 160) (afterWarmup e))"
  using up_frame[of e]
  by (simp add: detectRep_fst afterWarmup_state framesBetweenReps_eq)

lemma tenFramesAfterRep_state:
  "lastReps (tenFramesAfterRep e) = 1" "isInDownPosition (tenFramesAfterRep e)"
  "frameCount (tenFramesAfterRep e) = 20" "lastRepFrameCount (tenFramesAfterRep e) = 11"
  using detectReps_down[OF down_frame, of e 9 "snd (detectRep e (framePose e 1 160) (afterWarmup e))"]
    rep_at_frame_11[of e]
  by (simp_all add: tenFramesAfterRep_def split_beta Let_def detectRep_lastReps
        detectRep_frameCount detectRep_lastRepFrameCount afterWarmup_state)

subsection \<open>Fully visible frames and the push-up scenarios\<close>

lemma detectRep_full:
  "metric e pose = Some m \<Longrightarrow> fullConfidence pose \<Longrightarrow>
   detectRep e pose s = evaluate e m (s\<lparr>frameCount := frameCount s + 1, lastAngle := m\<rparr>)"
  by (rule detectRep_pass) (simp_all add: confidence_fullConfidence minFormQuality_eq)

lemma pushup_incomplete_scenario:
  assumes "metric Pushup p1 = Some 170" "metric Pushup p2 = Some 20"
    "metric Pushup p3 = Some 100" "metric Pushup p4 = Some 170"
    "fullConfidence p1" "fullConfidence p2" "fullConfidence p3" "fullConfidence p4"
  shows "fst (detectReps Pushup [p1, p2, p3, p4] new_ExerciseDetector) = [False, False, False, False]"
    "lastReps (snd (detectReps Pushup [p1, p2, p3, p4] new_ExerciseDetector)) = 0"
    "formQuality (snd (detectReps Pushup [p1, p2, p3] new_ExerciseDetector))
       = ''Incomplete rep - extend fully''"
    "formQuality (snd (detectReps Pushup [p1, p2, p3, p4] new_ExerciseDetector))
       = ''Ready - Lower your body''"
  by (simp_all add: split_beta Let_def
        detectRep_full[OF assms(1) assms(5)] detectRep_full[OF assms(2) assms(6)]
        detectRep_full[OF assms(3) assms(7)] detectRep_full[OF assms(4) assms(8)]
        evaluate_defs threshold_defs new_ExerciseDetector_def)

lemma afterWarmup_feedback:
  "formQuality (afterWarmup Pushup) = ''Perfect form! Keep going''"
  "formQuality (afterWarmup Squat) = ''Excellent depth!''"
  "formQuality (afterWarmup Situp) = ''Great curl! Complete it''"
  by (simp_all add: afterWarmup_def warmup_def detectReps_append split_beta
        detectRep_pass[OF down_frame(1,3)] evaluate_defs threshold_defs Let_def)

lemma detectRep_full_facts:
  assumes "metric e pose = Some m" "fullConfidence pose"
  shows "fst (detectRep e pose s) \<longleftrightarrow>
           isInDownPosition s \<and> \<not> m < endPositionThreshold e \<and> m > startPositionThreshold e
           \<and> frameCount s + 1 - lastRepFrameCount s > 10"
    and "isInDownPosition (snd (detectRep e pose s)) \<longleftrightarrow> m < endPositionThreshold e"
  using assms
  by (simp_all add: detectRep_fst detectRep_isInDownPosition confidence_fullConfidence
        minFormQuality_eq framesBetweenReps_eq)

lemma pushup_rep_scenario:
  assumes m: "metric Pushup p1 = Some m1" "metric Pushup p2 = Some m2"
    "metric Pushup p3 = Some m3" "metric Pushup p4 = Some m4"
    "metric Pushup p5 = Some m5" "metric Pushup p6 = Some m6"
    and c: "fullConfidence p1" "fullConfidence p2" "fullConfidence p3"
    "fullConfidence p4" "fullConfidence p5" "fullConfidence p6"
    and ph: "25 \<le> m1" "25 \<le> m2" "m3 < 25" "m4 < 25" "150 < m5" "25 \<le> m6"
    and up: "\<not> isInDownPosition s"
  shows "fst (detectReps Pushup [p1, p2, p3, p4, p5, p6] s)
           = [False, False, False, False, 6 \<le> frameCount s - lastRepFrameCount s, False]"
    and "lastReps (snd (detectReps Pushup [p1, p2, p3, p4, p5, p6] s))
           = (if 6 \<le> frameCount s - lastRepFrameCount s then lastReps s + 1 else lastReps s)"
    and "formQuality (snd (detectReps Pushup [p1, p2, p3, p4, p5] s)) = ''Perfect! Rep counted''
           \<longleftrightarrow> 6 \<le> frameCount s - lastRepFrameCount s"
proof -
  define s1 where "s1 = snd (detectRep Pushup p1 s)"
  define s2 where "s2 = snd (detectRep Pushup p2 s1)"
  define s3 where "s3 = snd (detectRep Pushup p3 s2)"
  define s4 where "s4 = snd (detectRep Pushup p4 s3)"
  define s5 where "s5 = snd (detectRep Pushup p5 s4)"
  define s6 where "s6 = snd (detectRep Pushup p6 s5)"
  note defs = s1_def s2_def s3_def s4_def s5_def s6_def
  have r1: "\<not> fst (detectRep Pushup p1 s)"
    using up by (simp add: detectRep_full_facts[OF m(1) c(1)])
  have d1: "\<not> isInDownPosition s1"
    using ph(1) by (simp add: s1_def detectRep_full_facts[OF m(1) c(1)] threshold_defs)
  have r2: "\<not> fst (detectRep Pushup p2 s1)"
    using d1 by (simp add: detectRep_full_facts[OF m(2) c(2)])
  have d2: "\<not> isInDownPosition s2"
    using ph(2) by (simp add: s2_def detectRep_full_facts[OF m(2) c(2)] threshold_defs)
  have r3: "\<not> fst (detectRep Pushup p3 s2)"
    using d2 by (simp add: detectRep_full_facts[OF m(3) c(3)])
  have d3: "isInDownPosition s3"
    using ph(3) by (simp add: s3_def detectRep_full_facts[OF m(3) c(3)] threshold_defs)
  have r4: "\<not> fst (detectRep Pushup p4 s3)"
    using ph(4) by (simp add: detectRep_full_facts[OF m(4) c(4)] threshold_defs)
  have d4: "isInDownPosition s4"
    using ph(4) by (simp add: s4_def detectRep_full_facts[OF m(4) c(4)] threshold_defs)
  have k1: "frameCount s1 = frameCount s + 1" "lastRepFrameCount s1 = lastRepFrameCount s"
    "lastReps s1 = lastReps s"
    by (simp_all add: s1_def detectRep_frameCount detectRep_lastRepFrameCount
          detectRep_lastReps r1)
  have k2: "frameCount s2 = frameCount s + 2" "lastRepFrameCount s2 = lastRepFrameCount s"
    "lastReps s2 = lastReps s"
    by (simp_all add: s2_def detectRep_frameCount detectRep_lastRepFrameCount
          detectRep_lastReps r2 k1)
  have k3: "frameCount s3 = frameCount s + 3" "lastRepFrameCount s3 = lastRepFrameCount s"
    "lastReps s3 = lastReps s"
    by (simp_all add: s3_def detectRep_frameCount detectRep_lastRepFrameCount
          detectRep_lastReps r3 k2)
  have fc4: "frameCount s4 = frameCount s + 4"
    by (simp add: s4_def detectRep_frameCount k3)
  have lr4: "lastRepFrameCount s4 = lastRepFrameCount s"
    by (simp add: s4_def detectRep_lastRepFrameCount r4 k3)
  have lc4: "lastReps s4 = lastReps s"
    by (simp add: s4_def detectRep_lastReps r4 k3)
  have r5: "fst (detectRep Pushup p5 s4) \<longleftrightarrow> 6 \<le> frameCount s - lastRepFrameCount s"
    using d4 ph(5) by (auto simp: detectRep_full_facts[OF m(5) c(5)] threshold_defs fc4 lr4)
  have d5: "\<not> isInDownPosition s5"
    using ph(5) by (simp add: s5_def detectRep_full_facts[OF m(5) c(5)] threshold_defs)
  have r6: "\<not> fst (detectRep Pushup p6 s5)"
    using d5 by (simp add: detectRep_full_facts[OF m(6) c(6)])
  have run6: "detectReps Pushup [p1, p2, p3, p4, p5, p6] s =
     ([fst (detectRep Pushup p1 s), fst (detectRep Pushup p2 s1), fst (detectRep Pushup p3 s2),
       fst (detectRep Pushup p4 s3), fst (detectRep Pushup p5 s4), fst (detectRep Pushup p6 s5)],
      s6)"
    by (simp add: defs split_beta Let_def)
  have run5: "snd (detectReps Pushup [p1, p2, p3, p4, p5] s) = s5"
    by (simp add: defs split_beta Let_def)
  show "fst (detectReps Pushup [p1, p2, p3, p4, p5, p6] s)
           = [False, False, False, False, 6 \<le> frameCount s - lastRepFrameCount s, False]"
    unfolding run6 using r1 r2 r3 r4 r5 r6 by simp
  have "lastReps s6 = lastReps s5"
    by (simp add: s6_def detectRep_lastReps r6)
  also have "\<dots> = (if 6 \<le> frameCount s - lastRepFrameCount s then lastReps s + 1 else lastReps s)"
    by (simp add: s5_def detectRep_lastReps r5 lc4)
  finally show "lastReps (snd (detectReps Pushup [p1, p2, p3, p4, p5, p6] s))
           = (if 6 \<le> frameCount s - lastRepFrameCount s then lastReps s + 1 else lastReps s)"
    unfolding run6 by simp
  have f4: "formQuality s4 \<noteq> ''Perfect! Rep counted''"
    using ph(4)
    by (simp add: s4_def detectRep_full[OF m(4) c(4)] PushupDetector_evaluate_def
          threshold_defs Let_def)
  have p5: "detectRep Pushup p5 s4
      = evaluate Pushup m5 (s4\<lparr>frameCount := frameCount s4 + 1, lastAngle := m5\<rparr>)"
    by (rule detectRep_full[OF m(5) c(5)])
  have "formQuality s5 = ''Perfect! Rep counted''
          \<longleftrightarrow> 6 \<le> frameCount s - lastRepFrameCount s"
  proof (cases "6 \<le> frameCount s - lastRepFrameCount s")
    case True
    then have "fst (evaluate Pushup m5 (s4\<lparr>frameCount := frameCount s4 + 1, lastAngle := m5\<rparr>))"
      using r5 by (simp add: p5)
    from evaluate_counted_feedback[OF this] True show ?thesis
      by (simp add: s5_def p5)
  next
    case False
    then have n: "\<not> fst (evaluate Pushup m5 (s4\<lparr>frameCount := frameCount s4 + 1, lastAngle := m5\<rparr>))"
      using r5 by (simp add: p5)
    have "formQuality (snd (evaluate Pushup m5 (s4\<lparr>frameCount := frameCount s4 + 1, lastAngle := m5\<rparr>)))
        = formQuality (s4\<lparr>frameCount := frameCount s4 + 1, lastAngle := m5\<rparr>)"
      using ph(5)
      by (intro evaluate_stale_feedback) (simp_all add: d4 n threshold_defs del: evaluate.simps)
    then show ?thesis using False f4 by (simp add: s5_def p5)
  qed
  then show "formQuality (snd (detectReps Pushup [p1, p2, p3, p4, p5] s)) = ''Perfect! Rep counted''
           \<longleftrightarrow> 6 \<le> frameCount s - lastRepFrameCount s"
    by (simp only: run5)
qed

subsection \<open>The angle at a vertex, in exact arithmetic\<close>

text \<open>
  With real-number arithmetic the angle lies between 0 and 180 degrees, is 0 when a ray
  has zero length or when both rays coincide, and is 180 when the vertex lies strictly
  between the two endpoints. These are facts of the exact formula; the source evaluates
  it in double precision, where the square roots and the quotient are rounded.
\<close>

lemma calculateAngle_unfold:
  "calculateAngle a b c =
     (if sqrt ((kp_x a - kp_x b)\<^sup>2 + (kp_y a - kp_y b)\<^sup>2) = 0
         \<or> sqrt ((kp_x c - kp_x b)\<^sup>2 + (kp_y c - kp_y b)\<^sup>2) = 0 then 0
      else arccos (min 1 (max (- 1)
             (((kp_x a - kp_x b) * (kp_x c - kp_x b) + (kp_y a - kp_y b) * (kp_y c - kp_y b))
              / (sqrt ((kp_x a - kp_x b)\<^sup>2 + (kp_y a - kp_y b)\<^sup>2)
                 * sqrt ((kp_x c - kp_x b)\<^sup>2 + (kp_y c - kp_y b)\<^sup>2)))))
           * (180 / pi))"
  unfolding calculateAngle_def Let_def by (rule refl)

lemma calculateAngle_from_cos:
  assumes "sqrt ((kp_x a - kp_x b)\<^sup>2 + (kp_y a - kp_y b)\<^sup>2) = la"
    and "sqrt ((kp_x c - kp_x b)\<^sup>2 + (kp_y c - kp_y b)\<^sup>2) = lc"
    and "(kp_x a - kp_x b) * (kp_x c - kp_x b) + (kp_y a - kp_y b) * (kp_y c - kp_y b) = d"
    and "la > 0" "lc > 0"
  shows "calculateAngle a b c = arccos (min 1 (max (- 1) (d / (la * lc)))) * (180 / pi)"
  unfolding calculateAngle_unfold assms(1,2,3) using assms(4,5) by simp

lemma scaled_length:
  fixes dx dy k :: real
  shows "sqrt ((k * dx)\<^sup>2 + (k * dy)\<^sup>2) = \<bar>k\<bar> * sqrt (dx\<^sup>2 + dy\<^sup>2)"
proof -
  have "(k * dx)\<^sup>2 + (k * dy)\<^sup>2 = k\<^sup>2 * (dx\<^sup>2 + dy\<^sup>2)"
    by (simp add: power_mult_distrib distrib_left)
  then show ?thesis by (simp add: real_sqrt_mult)
qed

lemma calculateAngle_range: "0 \<le> calculateAngle a b c \<and> calculateAngle a b c \<le> 180"
proof -
  define u where "u = min 1 (max (- 1) ((((kp_x a - kp_x b) * (kp_x c - kp_x b)
       + (kp_y a - kp_y b) * (kp_y c - kp_y b))
      / (sqrt ((kp_x a - kp_x b)\<^sup>2 + (kp_y a - kp_y b)\<^sup>2)
         * sqrt ((kp_x c - kp_x b)\<^sup>2 + (kp_y c - kp_y b)\<^sup>2)))))"
  have ub: "- 1 \<le> u" "u \<le> 1" by (simp_all add: u_def)
  have ca: "calculateAngle a b c = 0 \<or> calculateAngle a b c = arccos u * (180 / pi)"
    unfolding calculateAngle_unfold u_def by presburger
  have lo: "0 \<le> arccos u * (180 / pi)"
    using arccos_lbound[OF ub] by simp
  have "arccos u \<le> pi" using arccos_ubound[OF ub] .
  then have hi: "arccos u * (180 / pi) \<le> 180"
    by (simp add: field_simps)
  from ca lo hi show ?thesis by auto
qed

lemma calculateAngle_degenerate:
  assumes "(kp_x a = kp_x b \<and> kp_y a = kp_y b) \<or> (kp_x c = kp_x b \<and> kp_y c = kp_y b)"
  shows "calculateAngle a b c = 0"
  unfolding calculateAngle_unfold using assms by auto

lemma minus_divide_self: "(0::real) < x \<Longrightarrow> - x / x = - 1"
  by simp

lemma calculateAngle_straight:
  assumes t: "0 < t" "t < 1"
    and ne: "kp_x a \<noteq> kp_x c \<or> kp_y a \<noteq> kp_y c"
    and hx: "kp_x b = kp_x a + t * (kp_x c - kp_x a)"
    and hy: "kp_y b = kp_y a + t * (kp_y c - kp_y a)"
  shows "calculateAngle a b c = 180"
proof -
  define dx where "dx = kp_x c - kp_x a"
  define dy where "dy = kp_y c - kp_y a"
  define L where "L = sqrt (dx\<^sup>2 + dy\<^sup>2)"
  have nz: "dx \<noteq> 0 \<or> dy \<noteq> 0" using ne by (auto simp: dx_def dy_def)
  then have "dx\<^sup>2 + dy\<^sup>2 > 0" by (metis sum_power2_gt_zero_iff)
  then have Lpos: "L > 0" by (simp add: L_def)
  have LL: "dx\<^sup>2 + dy\<^sup>2 = L * L"
    by (simp add: L_def)
  have ba: "kp_x a - kp_x b = (- t) * dx" "kp_y a - kp_y b = (- t) * dy"
    by (simp_all add: hx hy dx_def dy_def)
  have bc: "kp_x c - kp_x b = (1 - t) * dx" "kp_y c - kp_y b = (1 - t) * dy"
    by (simp_all add: hx hy dx_def dy_def algebra_simps)
  have la: "sqrt ((kp_x a - kp_x b)\<^sup>2 + (kp_y a - kp_y b)\<^sup>2) = t * L"
    unfolding ba scaled_length L_def using t by simp
  have lc: "sqrt ((kp_x c - kp_x b)\<^sup>2 + (kp_y c - kp_y b)\<^sup>2) = (1 - t) * L"
    unfolding bc scaled_length L_def using t by simp
  have "(kp_x a - kp_x b) * (kp_x c - kp_x b) + (kp_y a - kp_y b) * (kp_y c - kp_y b)
      = - (t * (1 - t)) * (dx\<^sup>2 + dy\<^sup>2)"
    unfolding ba bc by (simp add: power2_eq_square algebra_simps)
  also have "\<dots> = - ((t * L) * ((1 - t) * L))"
    unfolding LL by simp
  finally have dot: "(kp_x a - kp_x b) * (kp_x c - kp_x b)
      + (kp_y a - kp_y b) * (kp_y c - kp_y b) = - ((t * L) * ((1 - t) * L))" .
  have pos: "t * L > 0" "(1 - t) * L > 0" using t Lpos by simp_all
  have q: "- ((t * L) * ((1 - t) * L)) / ((t * L) * ((1 - t) * L)) = - 1"
    by (rule minus_divide_self[OF mult_pos_pos[OF pos]])
  have "calculateAngle a b c
      = arccos (min 1 (max (- 1) (- ((t * L) * ((1 - t) * L)) / ((t * L) * ((1 - t) * L)))))
        * (180 / pi)"
    by (rule calculateAngle_from_cos[OF la lc dot pos])
  then show ?thesis unfolding q by simp
qed

lemma calculateAngle_same_endpoints:
  assumes "kp_x a = kp_x c" "kp_y a = kp_y c"
    and ne: "kp_x a \<noteq> kp_x b \<or> kp_y a \<noteq> kp_y b"
  shows "calculateAngle a b c = 0"
proof -
  define dx where "dx = kp_x c - kp_x b"
  define dy where "dy = kp_y c - kp_y b"
  define L where "L = sqrt (dx\<^sup>2 + dy\<^sup>2)"
  have nz: "dx \<noteq> 0 \<or> dy \<noteq> 0" using ne assms(1,2) by (auto simp: dx_def dy_def)
  then have "dx\<^sup>2 + dy\<^sup>2 > 0" by (metis sum_power2_gt_zero_iff)
  then have Lpos: "L > 0" by (simp add: L_def)
  have la: "sqrt ((kp_x a - kp_x b)\<^sup>2 + (kp_y a - kp_y b)\<^sup>2) = L"
    by (simp add: assms(1,2) L_def dx_def dy_def)
  have lc: "sqrt ((kp_x c - kp_x b)\<^sup>2 + (kp_y c - kp_y b)\<^sup>2) = L"
    by (simp add: L_def dx_def dy_def)
  have "(kp_x a - kp_x b) * (kp_x c - kp_x b) + (kp_y a - kp_y b) * (kp_y c - kp_y b)
      = dx\<^sup>2 + dy\<^sup>2"
    by (simp add: assms(1,2) dx_def dy_def power2_eq_square)
  also have "\<dots> = L * L" by (simp add: L_def)
  finally have dot: "(kp_x a - kp_x b) * (kp_x c - kp_x b)
      + (kp_y a - kp_y b) * (kp_y c - kp_y b) = L * L" .
  have q: "L * L / (L * L) = 1" using Lpos by simp
  have "calculateAngle a b c = arccos (min 1 (max (- 1) (L * L / (L * L)))) * (180 / pi)"
    by (rule calculateAngle_from_cos[OF la lc dot Lpos Lpos])
  then show ?thesis unfolding q by simp
qed

subsection \<open>A squat frame without the right ankle\<close>

lemma shortSquat_metric:
  "metric Squat (shortPose 16 (framePose Squat 1 160)) = Some 160"
  using calculateAngle_unit[of 160 1]
  by (simp add: metric.simps framePose.simps essentialMissing_def jointAngle_def
        getKeypoint_def shortPose_def limbPose_def Let_def)

lemma shortSquat_confidence:
  "confidence Squat (shortPose 16 (framePose Squat 1 160)) = 1"
  by (simp add: framePose.simps confidence_def getMeanConfidence_def getKeypoint_def
        shortPose_def limbPose_def Let_def List.map_filter_simps)

section \<open>Claims\<close>

text \<open>
  Claim C1, as amended. For the push-up detector that is not in the down position,
  feeding six poses one frame apart with every keypoint confidence equal to 1.0 whose
  elbow angle evaluates to 170, 160, 20, 15, 160, 170 (or to any six values in the same
  phases: the first, second and sixth not below 25, the third and fourth below 25, the
  fifth above 150): when at least 6 frames have been processed since the last counted
  rep (or since the start), exactly one rep is counted, \<open>detectRep\<close> returns true on the
  5th of the six frames and the feedback on that frame is \<open>Perfect! Rep counted\<close>;
  otherwise, and so for a detector started fresh, \<open>detectRep\<close> returns false on all six
  frames, no rep is counted and the feedback on the 5th frame is not
  \<open>Perfect! Rep counted\<close>. The claim as written expects the rep from a fresh detector;
  the counterexample runs the six frames on a fresh detector.
\<close>

theorem C1_pushup_scenario:
  assumes "metric Pushup p1 = Some m1" "metric Pushup p2 = Some m2"
    "metric Pushup p3 = Some m3" "metric Pushup p4 = Some m4"
    "metric Pushup p5 = Some m5" "metric Pushup p6 = Some m6"
    and "fullConfidence p1" "fullConfidence p2" "fullConfidence p3"
    "fullConfidence p4" "fullConfidence p5" "fullConfidence p6"
    and "25 \<le> m1" "25 \<le> m2" "m3 < 25" "m4 < 25" "150 < m5" "25 \<le> m6"
    and "\<not> isInDownPosition s"
  shows "fst (detectReps Pushup [p1, p2, p3, p4, p5, p6] s)
           = [False, False, False, False, 6 \<le> frameCount s - lastRepFrameCount s, False]
     \<and> getReps (snd (detectReps Pushup [p1, p2, p3, p4, p5, p6] s))
           = (if 6 \<le> frameCount s - lastRepFrameCount s then getReps s + 1 else getReps s)
     \<and> (getFormFeedback (snd (detectReps Pushup [p1, p2, p3, p4, p5] s))
             = ''Perfect! Rep counted''
           \<longleftrightarrow> 6 \<le> frameCount s - lastRepFrameCount s)"
  unfolding getReps_def getFormFeedback_def
  using pushup_rep_scenario[OF assms] by blast

theorem C1_pushup_scenario_witness:
  "fst (detectReps Pushup
          [framePose Pushup 1 170, framePose Pushup 1 160, framePose Pushup 1 20,
           framePose Pushup 1 15, framePose Pushup 1 160, framePose Pushup 1 170]
          (snd (detectReps Pushup (replicate 6 emptyPose) new_ExerciseDetector)))
     = [False, False, False, False, True, False]
   \<and> getReps (snd (detectReps Pushup
          [framePose Pushup 1 170, framePose Pushup 1 160, framePose Pushup 1 20,
           framePose Pushup 1 15, framePose Pushup 1 160, framePose Pushup 1 170]
          (snd (detectReps Pushup (replicate 6 emptyPose) new_ExerciseDetector)))) = 1
   \<and> getFormFeedback (snd (detectReps Pushup
          [framePose Pushup 1 170, framePose Pushup 1 160, framePose Pushup 1 20,
           framePose Pushup 1 15, framePose Pushup 1 160]
          (snd (detectReps Pushup (replicate 6 emptyPose) new_ExerciseDetector))))
     = ''Perfect! Rep counted''"
proof -
  let ?s = "snd (detectReps Pushup (replicate 6 emptyPose) new_ExerciseDetector)"
  have s: "\<not> isInDownPosition ?s" "frameCount ?s = 6" "lastRepFrameCount ?s = 0" "lastReps ?s = 0"
    by (simp_all add: detectReps_emptyPose new_ExerciseDetector_def)
  have m: "metric Pushup (framePose Pushup 1 170) = Some 170"
    "metric Pushup (framePose Pushup 1 160) = Some 160"
    "metric Pushup (framePose Pushup 1 20) = Some 20"
    "metric Pushup (framePose Pushup 1 15) = Some 15"
    by (simp_all add: metric_framePose)
  have ph: "(25::real) \<le> 170" "(25::real) \<le> 160" "(20::real) < 25" "(15::real) < 25"
    "(150::real) < 160"
    by simp_all
  show ?thesis
    using C1_pushup_scenario[OF m(1) m(2) m(3) m(4) m(2) m(1)
        fullConfidence_framePose fullConfidence_framePose fullConfidence_framePose
        fullConfidence_framePose fullConfidence_framePose fullConfidence_framePose
        ph(1) ph(2) ph(3) ph(4) ph(5) ph(1) s(1)]
    by (simp only: s getReps_def) simp
qed

theorem C1_counterexample:
  "fst (detectReps Pushup
          [framePose Pushup 1 170, framePose Pushup 1 160, framePose Pushup 1 20,
           framePose Pushup 1 15, framePose Pushup 1 160, framePose Pushup 1 170]
          new_ExerciseDetector)
     = [False, False, False, False, False, False]
   \<and> getReps (snd (detectReps Pushup
          [framePose Pushup 1 170, framePose Pushup 1 160, framePose Pushup 1 20,
           framePose Pushup 1 15, framePose Pushup 1 160, framePose Pushup 1 170]
          new_ExerciseDetector)) = 0
   \<and> getFormFeedback (snd (detectReps Pushup
          [framePose Pushup 1 170, framePose Pushup 1 160, framePose Pushup 1 20,
           framePose Pushup 1 15, framePose Pushup 1 160]
          new_ExerciseDetector)) \<noteq> ''Perfect! Rep counted''"
proof -
  have s: "\<not> isInDownPosition new_ExerciseDetector"
    "frameCount new_ExerciseDetector = 0" "lastRepFrameCount new_ExerciseDetector = 0"
    "lastReps new_ExerciseDetector = 0"
    by (simp_all add: new_ExerciseDetector_def)
  have m: "metric Pushup (framePose Pushup 1 170) = Some 170"
    "metric Pushup (framePose Pushup 1 160) = Some 160"
    "metric Pushup (framePose Pushup 1 20) = Some 20"
    "metric Pushup (framePose Pushup 1 15) = Some 15"
    by (simp_all add: metric_framePose)
  have ph: "(25::real) \<le> 170" "(25::real) \<le> 160" "(20::real) < 25" "(15::real) < 25"
    "(150::real) < 160"
    by simp_all
  show ?thesis
    using pushup_rep_scenario[OF m(1) m(2) m(3) m(4) m(2) m(1)
        fullConfidence_framePose fullConfidence_framePose fullConfidence_framePose
        fullConfidence_framePose fullConfidence_framePose fullConfidence_framePose
        ph(1) ph(2) ph(3) ph(4) ph(5) ph(1) s(1)]
    by (simp only: s getReps_def getFormFeedback_def) simp
qed

text \<open>
  Claim C2. For every detector variant and every sequence of \<open>detectRep\<close> calls with
  arbitrary poses, \<open>getReps()\<close> is non-decreasing, and each single call increases it by
  at most 1, by exactly 1 when it increases. The theorem also records that the count
  increases exactly on the calls that return true, and states monotonicity along a
  sequence as: the count after a prefix of the calls is at most the count after all of
  them, from any detector state.
\<close>

theorem C2_getReps_monotone:
  "(getReps (snd (detectRep e pose s)) = getReps s
      \<or> getReps (snd (detectRep e pose s)) = getReps s + 1)
   \<and> (fst (detectRep e pose s) \<longleftrightarrow> getReps (snd (detectRep e pose s)) = getReps s + 1)
   \<and> getReps (snd (detectReps e ps s)) \<le> getReps (snd (detectReps e (ps @ qs) s))"
  by (simp add: getReps_def detectRep_lastReps detectReps_append detectReps_lastReps_mono)

theorem C2_getReps_monotone_witness:
  "getReps (snd (detectRep Squat (framePose Squat 1 160) (afterWarmup Squat))) = 1
   \<and> getReps (snd (detectRep Squat emptyPose (afterWarmup Squat))) = 0"
  using C2_getReps_monotone[of Squat "framePose Squat 1 160" "afterWarmup Squat" "[]" "[]"]
    C2_getReps_monotone[of Squat emptyPose "afterWarmup Squat" "[]" "[]"]
    rep_at_frame_11[of Squat]
  by (auto simp: getReps_def afterWarmup_state detectRep_fst metric_emptyPose)

text \<open>
  Claim C3, as amended. For every detector variant, a call counts a rep if and only if
  the frame passes the confidence gate, the detector was in the down position and the
  new metric is not below \<open>endPositionThreshold\<close>, the metric is above
  \<open>startPositionThreshold\<close>, and the frame counter of this call exceeds
  \<open>lastRepFrameCount\<close> by more than \<open>framesBetweenReps\<close> (10), that is by at least 11.
  The claim as written asks for at least 10 frames and says that a transition exactly
  10 frames after the previous counted rep is counted; the counterexample is a push-up
  session whose rep is counted on call 11 and whose next valid transition, on call 21,
  is not counted.
\<close>

theorem C3_rep_counted_iff:
  "fst (detectRep e pose s) \<longleftrightarrow>
     (case metric e pose of
        None \<Rightarrow> False
      | Some m \<Rightarrow>
          \<not> confidence e pose < minFormQuality e
          \<and> isInDownPosition s \<and> \<not> m < endPositionThreshold e
          \<and> m > startPositionThreshold e
          \<and> (frameCount s + 1) - lastRepFrameCount s > framesBetweenReps e)"
  by (rule detectRep_fst)

theorem C3_rep_counted_iff_witness:
  "fst (detectRep Situp (framePose Situp 1 160) (afterWarmup Situp))
   \<and> (frameCount (afterWarmup Situp) + 1) - lastRepFrameCount (afterWarmup Situp) = 11
   \<and> \<not> fst (detectRep Situp (framePose Situp 1 160) (tenFramesAfterRep Situp))
   \<and> framesBetweenReps Situp = 10"
  using C3_rep_counted_iff[of Situp "framePose Situp 1 160" "afterWarmup Situp"]
    C3_rep_counted_iff[of Situp "framePose Situp 1 160" "tenFramesAfterRep Situp"]
    up_frame[of Situp]
  by (simp add: afterWarmup_state tenFramesAfterRep_state framesBetweenReps_eq)

theorem C3_counterexample:
  "lastRepFrameCount (tenFramesAfterRep Pushup) = 11
   \<and> frameCount (tenFramesAfterRep Pushup) + 1 = 11 + framesBetweenReps Pushup
   \<and> isInDownPosition (tenFramesAfterRep Pushup)
   \<and> metric Pushup (framePose Pushup 1 160) = Some 160
   \<and> \<not> 160 < endPositionThreshold Pushup
   \<and> 160 > startPositionThreshold Pushup
   \<and> \<not> confidence Pushup (framePose Pushup 1 160) < minFormQuality Pushup
   \<and> \<not> fst (detectRep Pushup (framePose Pushup 1 160) (tenFramesAfterRep Pushup))"
  using up_frame[of Pushup]
  by (simp add: tenFramesAfterRep_state framesBetweenReps_eq detectRep_fst)

text \<open>
  Claim C4. For every detector variant and every pose, if an essential landmark is
  missing (its index is beyond the keypoint list or its confidence is not above 0.3) or
  the mean confidence over the involved landmarks is below 0.5, then \<open>detectRep\<close>
  returns false, the rep count is unchanged, the feedback is the positioning message
  (essential landmark missing) or the low-visibility message, and \<open>isInDownPosition\<close>
  keeps its value.
\<close>

theorem C4_gate_failure:
  assumes "(\<exists>i \<in> set (essentialLandmarks e).
              length (keypoints pose) \<le> i \<or> \<not> kp_score (keypoints pose ! i) > 0.3)
           \<or> confidence e pose < 0.5"
  shows "fst (detectRep e pose s) = False
     \<and> getReps (snd (detectRep e pose s)) = getReps s
     \<and> isInDownPosition (snd (detectRep e pose s)) = isInDownPosition s
     \<and> getFormFeedback (snd (detectRep e pose s)) =
          (if essentialMissing e pose then positionFeedback e else lowVisibilityFeedback e)"
proof -
  have em: "essentialMissing e pose \<longleftrightarrow>
    (\<exists>i \<in> set (essentialLandmarks e).
        length (keypoints pose) \<le> i \<or> \<not> kp_score (keypoints pose ! i) > 0.3)"
    by (simp only: essentialMissing_def list_ex_iff getKeypoint_None_iff)
  show ?thesis
  proof (cases "metric e pose")
    case None
    then have "essentialMissing e pose" by (simp add: metric_None_iff)
    then show ?thesis
      by (simp add: detectRep_missing[OF None] getReps_def getFormFeedback_def)
  next
    case (Some m)
    then have ne: "\<not> essentialMissing e pose" using metric_None_iff[of e pose] by simp
    with assms em have "confidence e pose < minFormQuality e"
      by (simp add: minFormQuality_eq)
    from detectRep_low[OF Some this] ne show ?thesis
      by (simp add: getReps_def getFormFeedback_def)
  qed
qed

theorem C4_gate_failure_witness:
  "fst (detectRep Pushup emptyPose (afterWarmup Pushup)) = False
   \<and> isInDownPosition (snd (detectRep Pushup emptyPose (afterWarmup Pushup)))
   \<and> getFormFeedback (snd (detectRep Pushup emptyPose (afterWarmup Pushup)))
        = ''Position body with arms visible''
   \<and> fst (detectRep Pushup (framePose Pushup 0.4 160) (afterWarmup Pushup)) = False
   \<and> isInDownPosition (snd (detectRep Pushup (framePose Pushup 0.4 160) (afterWarmup Pushup)))
   \<and> getFormFeedback (snd (detectRep Pushup (framePose Pushup 0.4 160) (afterWarmup Pushup)))
        = ''Low visibility - adjust your position''"
proof -
  have h1: "(\<exists>i \<in> set (essentialLandmarks Pushup).
               length (keypoints emptyPose) \<le> i \<or> \<not> kp_score (keypoints emptyPose ! i) > 0.3)
            \<or> confidence Pushup emptyPose < 0.5"
    by (auto simp: emptyPose_def)
  have h2: "(\<exists>i \<in> set (essentialLandmarks Pushup).
               length (keypoints (framePose Pushup 0.4 160)) \<le> i
               \<or> \<not> kp_score (keypoints (framePose Pushup 0.4 160) ! i) > 0.3)
            \<or> confidence Pushup (framePose Pushup 0.4 160) < 0.5"
    by (simp add: confidence_framePose)
  have e1: "essentialMissing Pushup emptyPose"
    using metric_None_iff[of Pushup emptyPose] by (simp add: metric_emptyPose)
  have e2: "\<not> essentialMissing Pushup (framePose Pushup 0.4 160)"
    using metric_None_iff[of Pushup "framePose Pushup 0.4 160"]
    by (simp add: metric_framePose)
  show ?thesis
    using C4_gate_failure[OF h1, of "afterWarmup Pushup"]
      C4_gate_failure[OF h2, of "afterWarmup Pushup"] e1 e2
    by (simp add: afterWarmup_state)
qed

text \<open>
  Claim C5, as amended. For every detector variant, on a frame with a down to not-down
  transition where the metric is not above \<open>startPositionThreshold\<close>, the rep is not
  counted and the phase flag flips to not-down; when the metric is strictly below
  \<open>startPositionThreshold\<close> the feedback is the exercise's incomplete-rep message.
  The push-up angle sequence 170, 20, 100, 170 with full confidence, from a fresh
  detector, counts no rep and reads \<open>Incomplete rep - extend fully\<close> after the third
  frame. The claim as written promises the incomplete-rep message whenever the metric
  does not clear the threshold; the counterexample is a sit-up transition frame whose
  metric equals the threshold 140, where the feedback of the frame before stays.
\<close>

theorem C5_incomplete_rep:
  "(metric e pose = Some m \<and> \<not> confidence e pose < minFormQuality e
      \<and> isInDownPosition s \<and> \<not> m < endPositionThreshold e \<and> \<not> m > startPositionThreshold e
    \<longrightarrow> fst (detectRep e pose s) = False
        \<and> getReps (snd (detectRep e pose s)) = getReps s
        \<and> isInDownPosition (snd (detectRep e pose s)) = False
        \<and> (m < startPositionThreshold e
             \<longrightarrow> getFormFeedback (snd (detectRep e pose s)) = incompleteFeedback e))
   \<and> (metric Pushup p1 = Some 170 \<and> metric Pushup p2 = Some 20
      \<and> metric Pushup p3 = Some 100 \<and> metric Pushup p4 = Some 170
      \<and> fullConfidence p1 \<and> fullConfidence p2 \<and> fullConfidence p3 \<and> fullConfidence p4
    \<longrightarrow> fst (detectReps Pushup [p1, p2, p3, p4] new_ExerciseDetector)
          = [False, False, False, False]
        \<and> getReps (snd (detectReps Pushup [p1, p2, p3, p4] new_ExerciseDetector)) = 0
        \<and> getFormFeedback (snd (detectReps Pushup [p1, p2, p3] new_ExerciseDetector))
          = ''Incomplete rep - extend fully'')"
proof (intro conjI impI)
  assume a: "metric e pose = Some m \<and> \<not> confidence e pose < minFormQuality e
      \<and> isInDownPosition s \<and> \<not> m < endPositionThreshold e \<and> \<not> m > startPositionThreshold e"
  then have p: "detectRep e pose s
      = evaluate e m (s\<lparr>frameCount := frameCount s + 1, lastAngle := m\<rparr>)"
    by (simp add: detectRep_pass)
  show "fst (detectRep e pose s) = False"
    using a by (simp add: p evaluate_fst)
  then show "getReps (snd (detectRep e pose s)) = getReps s"
    by (simp add: getReps_def detectRep_lastReps)
  show "isInDownPosition (snd (detectRep e pose s)) = False"
    using a by (simp add: p evaluate_isInDownPosition)
  show "getFormFeedback (snd (detectRep e pose s)) = incompleteFeedback e"
    if "m < startPositionThreshold e"
    using a that by (simp add: p getFormFeedback_def evaluate_incomplete_feedback)
next
  assume b: "metric Pushup p1 = Some 170 \<and> metric Pushup p2 = Some 20
      \<and> metric Pushup p3 = Some 100 \<and> metric Pushup p4 = Some 170
      \<and> fullConfidence p1 \<and> fullConfidence p2 \<and> fullConfidence p3 \<and> fullConfidence p4"
  then show "fst (detectReps Pushup [p1, p2, p3, p4] new_ExerciseDetector)
          = [False, False, False, False]"
    using pushup_incomplete_scenario(1)[of p1 p2 p3 p4] by blast
  from b show "getReps (snd (detectReps Pushup [p1, p2, p3, p4] new_ExerciseDetector)) = 0"
    unfolding getReps_def using pushup_incomplete_scenario(2)[of p1 p2 p3 p4] by blast
  from b show "getFormFeedback (snd (detectReps Pushup [p1, p2, p3] new_ExerciseDetector))
          = ''Incomplete rep - extend fully''"
    unfolding getFormFeedback_def using pushup_incomplete_scenario(3)[of p1 p2 p3 p4] by blast
qed

theorem C5_incomplete_rep_witness:
  "fst (detectRep Squat (framePose Squat 1 100) (afterWarmup Squat)) = False
   \<and> isInDownPosition (afterWarmup Squat)
   \<and> isInDownPosition (snd (detectRep Squat (framePose Squat 1 100) (afterWarmup Squat))) = False
   \<and> getFormFeedback (snd (detectRep Squat (framePose Squat 1 100) (afterWarmup Squat)))
        = ''Incomplete rep - stand up fully''
   \<and> getReps (snd (detectReps Pushup
        [framePose Pushup 1 170, framePose Pushup 1 20, framePose Pushup 1 100,
         framePose Pushup 1 170] new_ExerciseDetector)) = 0
   \<and> getFormFeedback (snd (detectReps Pushup
        [framePose Pushup 1 170, framePose Pushup 1 20, framePose Pushup 1 100]
        new_ExerciseDetector)) = ''Incomplete rep - extend fully''"
  using C5_incomplete_rep[of Squat "framePose Squat 1 100" 100 "afterWarmup Squat"
      "framePose Pushup 1 170" "framePose Pushup 1 20" "framePose Pushup 1 100"
      "framePose Pushup 1 170"]
  by (simp add: metric_framePose confidence_framePose fullConfidence_framePose
        minFormQuality_eq afterWarmup_state threshold_defs)

theorem C5_counterexample:
  "isInDownPosition (afterWarmup Situp)
   \<and> metric Situp (framePose Situp 1 140) = Some 140
   \<and> \<not> confidence Situp (framePose Situp 1 140) < minFormQuality Situp
   \<and> \<not> 140 < endPositionThreshold Situp
   \<and> \<not> 140 > startPositionThreshold Situp
   \<and> isInDownPosition (snd (detectRep Situp (framePose Situp 1 140) (afterWarmup Situp))) = False
   \<and> getFormFeedback (snd (detectRep Situp (framePose Situp 1 140) (afterWarmup Situp)))
        = getFormFeedback (afterWarmup Situp)
   \<and> getFormFeedback (afterWarmup Situp) = ''Great curl! Complete it''
   \<and> getFormFeedback (snd (detectRep Situp (framePose Situp 1 140) (afterWarmup Situp)))
        \<noteq> incompleteFeedback Situp"
proof -
  have m: "metric Situp (framePose Situp 1 140) = Some 140"
    by (simp add: metric_framePose)
  have c: "\<not> confidence Situp (framePose Situp 1 140) < minFormQuality Situp"
    by (simp add: confidence_framePose minFormQuality_eq)
  show ?thesis
    by (simp add: m confidence_framePose detectRep_pass[OF m c] evaluate_defs threshold_defs
          Let_def afterWarmup_state afterWarmup_feedback getFormFeedback_def)
qed

text \<open>
  Claim C6, as amended. For every detector state, \<open>reset()\<close> yields a freshly
  constructed detector except for the feedback string, which it leaves as it was:
  \<open>getReps()\<close> is 0, the phase flag, \<open>lastAngle\<close> and both frame counters are cleared,
  and \<open>getFormFeedback()\<close> returns what it returned before the reset. The claim as
  written says the feedback equals a fresh instance's; the counterexample resets a
  push-up detector after one call on an empty pose.
\<close>

theorem C6_reset_keeps_feedback:
  "reset s = new_ExerciseDetector\<lparr>formQuality := formQuality s\<rparr>
   \<and> getReps (reset s) = 0 \<and> isInDownPosition (reset s) = False \<and> lastAngle (reset s) = 0
   \<and> frameCount (reset s) = 0 \<and> lastRepFrameCount (reset s) = 0
   \<and> getFormFeedback (reset s) = getFormFeedback s"
  by (simp add: reset_def new_ExerciseDetector_def getReps_def getFormFeedback_def)

theorem C6_reset_keeps_feedback_witness:
  "getReps (reset (tenFramesAfterRep Squat)) = 0
   \<and> getReps (tenFramesAfterRep Squat) = 1
   \<and> frameCount (reset (tenFramesAfterRep Squat)) = 0"
  using C6_reset_keeps_feedback[of "tenFramesAfterRep Squat"]
  by (simp add: getReps_def tenFramesAfterRep_state new_ExerciseDetector_def)

theorem C6_counterexample:
  "getFormFeedback (reset (snd (detectRep Pushup emptyPose new_ExerciseDetector)))
     \<noteq> getFormFeedback new_ExerciseDetector"
  by (simp add: detectRep_missing metric_emptyPose reset_def getFormFeedback_def
        new_ExerciseDetector_def)

text \<open>
  Claim C8, as amended. For every detector variant, after a \<open>detectRep\<close> call that
  passes the confidence gate the phase flag equals (metric of the current frame below
  \<open>endPositionThreshold\<close>), whatever the prior state; after a call that the gate
  stops (essential landmark missing, or mean confidence below \<open>minFormQuality\<close>) the
  flag keeps its prior value. The claim as written makes the flag independent of the
  prior state after any call; the counterexample is a push-up frame with every
  landmark at confidence 0.4 and elbow angle 160.
\<close>

theorem C8_phase_flag:
  "isInDownPosition (snd (detectRep e pose s)) =
     (case metric e pose of
        None \<Rightarrow> isInDownPosition s
      | Some m \<Rightarrow> if confidence e pose < minFormQuality e then isInDownPosition s
                  else m < endPositionThreshold e)"
  by (rule detectRep_isInDownPosition)

theorem C8_phase_flag_witness:
  "isInDownPosition (snd (detectRep Pushup (framePose Pushup 1 10) new_ExerciseDetector))
   \<and> \<not> isInDownPosition (snd (detectRep Pushup (framePose Pushup 1 160) (afterWarmup Pushup)))
   \<and> isInDownPosition (snd (detectRep Pushup emptyPose (afterWarmup Pushup)))"
  using C8_phase_flag[of Pushup "framePose Pushup 1 10" new_ExerciseDetector]
    C8_phase_flag[of Pushup "framePose Pushup 1 160" "afterWarmup Pushup"]
    C8_phase_flag[of Pushup emptyPose "afterWarmup Pushup"]
    up_frame[of Pushup] down_frame[of Pushup]
  by (simp add: metric_emptyPose afterWarmup_state)

theorem C8_counterexample:
  "metric Pushup (framePose Pushup 0.4 160) = Some 160
   \<and> isInDownPosition (snd (detectRep Pushup (framePose Pushup 0.4 160) (afterWarmup Pushup)))
        \<noteq> (160 < endPositionThreshold Pushup)
   \<and> isInDownPosition (snd (detectRep Pushup (framePose Pushup 0.4 160) (afterWarmup Pushup)))
        \<noteq> isInDownPosition (snd (detectRep Pushup (framePose Pushup 0.4 160) new_ExerciseDetector))"
  by (simp add: detectRep_isInDownPosition metric_framePose confidence_framePose
        minFormQuality_eq afterWarmup_state threshold_defs new_ExerciseDetector_def)

text \<open>
  Claim C9. For every detector variant started fresh or just reset, and every pose
  sequence, none of the first 10 \<open>detectRep\<close> calls returns true; the 11th can: in the
  session of nine empty frames, a down frame and an up frame, the 11th call returns
  true.
\<close>

theorem C9_no_rep_in_first_ten_calls:
  "take 10 (fst (detectReps e poses new_ExerciseDetector)) = replicate (min 10 (length poses)) False
   \<and> take 10 (fst (detectReps e poses (reset s))) = replicate (min 10 (length poses)) False
   \<and> fst (detectReps e (warmup e @ [framePose e 1 160]) new_ExerciseDetector)
        = replicate 10 False @ [True]"
proof -
  have a: "fst (detectReps e (take 10 poses) s0) = replicate (length (take 10 poses)) False"
    if "frameCount s0 = 0" "lastRepFrameCount s0 = 0" for s0
    using that detectReps_debounce[of s0 "take 10 poses" e] by simp
  have n: "take 10 (fst (detectReps e poses new_ExerciseDetector))
             = replicate (min 10 (length poses)) False"
    using a[of new_ExerciseDetector]
    by (simp add: detectReps_take new_ExerciseDetector_def min.commute)
  have r: "take 10 (fst (detectReps e poses (reset s))) = replicate (min 10 (length poses)) False"
    using a[of "reset s"] by (simp add: detectReps_take reset_def min.commute)
  have w: "fst (detectReps e (warmup e @ [framePose e 1 160]) new_ExerciseDetector)
             = replicate 10 False @ [True]"
    using rep_at_frame_11[of e]
    by (simp add: detectReps_append warmup_results afterWarmup_def split_beta)
  from n r w show ?thesis by simp
qed

theorem C9_no_rep_in_first_ten_calls_witness:
  "take 10 (fst (detectReps Squat (warmup Squat @ [framePose Squat 1 160]) new_ExerciseDetector))
     = replicate 10 False
   \<and> fst (detectReps Squat (warmup Squat @ [framePose Squat 1 160]) new_ExerciseDetector) ! 10"
  using C9_no_rep_in_first_ten_calls[of Squat "warmup Squat @ [framePose Squat 1 160]" new_ExerciseDetector]
  by (simp add: warmup_def nth_append)

text \<open>
  Claim C10, as amended. For every detector variant, \<open>detectRep\<close> is total on every
  pose, including poses whose keypoint list is empty or shorter than 17 entries: an
  out-of-range landmark index yields an absent keypoint, and when the index of an
  essential landmark is out of range (in particular for the empty list) the call
  returns false with the exercise's positioning feedback, the frame counter advanced
  and nothing else changed. When every essential landmark is in range and visible,
  the frame is processed without the landmarks that are out of range: it goes through
  the confidence gate and the transition evaluation with the metric computed from the
  landmarks that are present. The claim as written promises the positioning result
  for every out-of-range landmark index; the counterexample is a squat pose of 16
  keypoints, whose right ankle (index 16) is out of range, on which a rep is counted.
\<close>

theorem C10_out_of_range_landmarks:
  "(length (keypoints pose) \<le> i \<longrightarrow> getKeypoint pose i = None)
   \<and> ((\<exists>i \<in> set (essentialLandmarks e). length (keypoints pose) \<le> i) \<longrightarrow>
        detectRep e pose s =
          (False, s\<lparr>frameCount := frameCount s + 1, formQuality := positionFeedback e\<rparr>))
   \<and> (keypoints pose = [] \<longrightarrow>
        fst (detectRep e pose s) = False
        \<and> getFormFeedback (snd (detectRep e pose s)) = positionFeedback e)
   \<and> ((\<forall>i \<in> set (essentialLandmarks e).
          i < length (keypoints pose) \<and> kp_score (keypoints pose ! i) > 0.3) \<longrightarrow>
        (\<exists>m. metric e pose = Some m \<and>
           detectRep e pose s =
             (if confidence e pose < minFormQuality e
              then (False, s\<lparr>frameCount := frameCount s + 1, lastAngle := m,
                              formQuality := lowVisibilityFeedback e\<rparr>)
              else evaluate e m (s\<lparr>frameCount := frameCount s + 1, lastAngle := m\<rparr>))))"
proof (intro conjI impI)
  assume v: "\<forall>i \<in> set (essentialLandmarks e).
          i < length (keypoints pose) \<and> kp_score (keypoints pose ! i) > 0.3"
  then have "\<not> essentialMissing e pose"
    by (auto simp: essentialMissing_def list_ex_iff getKeypoint_None_iff)
  then obtain m where m: "metric e pose = Some m"
    using metric_None_iff[of e pose] by (cases "metric e pose") simp_all
  have "detectRep e pose s =
             (if confidence e pose < minFormQuality e
              then (False, s\<lparr>frameCount := frameCount s + 1, lastAngle := m,
                              formQuality := lowVisibilityFeedback e\<rparr>)
              else evaluate e m (s\<lparr>frameCount := frameCount s + 1, lastAngle := m\<rparr>))"
    by (simp add: detectRep_unfold m del: evaluate.simps)
  with m show "\<exists>m. metric e pose = Some m \<and>
           detectRep e pose s =
             (if confidence e pose < minFormQuality e
              then (False, s\<lparr>frameCount := frameCount s + 1, lastAngle := m,
                              formQuality := lowVisibilityFeedback e\<rparr>)
              else evaluate e m (s\<lparr>frameCount := frameCount s + 1, lastAngle := m\<rparr>))"
    by blast
next
  show "getKeypoint pose i = None" if "length (keypoints pose) \<le> i"
    using that by (simp add: getKeypoint_def)
  have miss: "metric e pose = None"
    if "\<exists>i \<in> set (essentialLandmarks e). length (keypoints pose) \<le> i"
  proof -
    from that have "essentialMissing e pose"
      by (auto simp: essentialMissing_def list_ex_iff getKeypoint_None_iff)
    then show ?thesis by (simp add: metric_None_iff)
  qed
  show "detectRep e pose s =
          (False, s\<lparr>frameCount := frameCount s + 1, formQuality := positionFeedback e\<rparr>)"
    if "\<exists>i \<in> set (essentialLandmarks e). length (keypoints pose) \<le> i"
    using miss[OF that] by (rule detectRep_missing)
  assume e: "keypoints pose = []"
  have "\<exists>i \<in> set (essentialLandmarks e). length (keypoints pose) \<le> i"
    by (cases e) (auto simp: e)
  from detectRep_missing[OF miss[OF this], of s]
  show "fst (detectRep e pose s) = False"
    and "getFormFeedback (snd (detectRep e pose s)) = positionFeedback e"
    by (simp_all add: getFormFeedback_def)
qed

theorem C10_out_of_range_landmarks_witness:
  "getKeypoint (shortPose 8 (framePose Pushup 1 160)) 8 = None
   \<and> detectRep Pushup (shortPose 8 (framePose Pushup 1 160)) new_ExerciseDetector
       = (False, new_ExerciseDetector\<lparr>frameCount := 1,
                   formQuality := ''Position body with arms visible''\<rparr>)
   \<and> getFormFeedback (snd (detectRep Situp emptyPose new_ExerciseDetector))
       = ''Position your body fully''
   \<and> getKeypoint (shortPose 16 (framePose Squat 1 160)) 16 = None
   \<and> detectRep Squat (shortPose 16 (framePose Squat 1 160)) new_ExerciseDetector
       = (False, new_ExerciseDetector\<lparr>frameCount := 1, lastAngle := 160,
                   formQuality := ''Ready - Squat down''\<rparr>)"
proof -
  have l: "length (keypoints (shortPose 8 (framePose Pushup 1 160))) = 8"
    by (simp add: framePose.simps shortPose_def limbPose_def Let_def)
  have h: "\<exists>i \<in> set (essentialLandmarks Pushup).
      length (keypoints (shortPose 8 (framePose Pushup 1 160))) \<le> i"
    by (simp add: l)
  have l16: "length (keypoints (shortPose 16 (framePose Squat 1 160))) = 16"
    by (simp add: framePose.simps shortPose_def limbPose_def Let_def)
  have v: "\<forall>i \<in> set (essentialLandmarks Squat).
      i < length (keypoints (shortPose 16 (framePose Squat 1 160)))
      \<and> kp_score (keypoints (shortPose 16 (framePose Squat 1 160)) ! i) > 0.3"
    by (simp add: framePose.simps shortPose_def limbPose_def Let_def)
  have first: "getKeypoint (shortPose 8 (framePose Pushup 1 160)) 8 = None
   \<and> detectRep Pushup (shortPose 8 (framePose Pushup 1 160)) new_ExerciseDetector
       = (False, new_ExerciseDetector\<lparr>frameCount := 1,
                   formQuality := ''Position body with arms visible''\<rparr>)
   \<and> getFormFeedback (snd (detectRep Situp emptyPose new_ExerciseDetector))
       = ''Position your body fully''"
    using C10_out_of_range_landmarks[of "shortPose 8 (framePose Pushup 1 160)" 8 Pushup
        new_ExerciseDetector]
      C10_out_of_range_landmarks[of emptyPose 0 Situp new_ExerciseDetector] h
    by (simp add: l emptyPose_def new_ExerciseDetector_def)
  note t = C10_out_of_range_landmarks[of "shortPose 16 (framePose Squat 1 160)" 16 Squat
        new_ExerciseDetector]
  have k: "getKeypoint (shortPose 16 (framePose Squat 1 160)) 16 = None"
    using t[THEN conjunct1] l16 by simp
  obtain m where m: "metric Squat (shortPose 16 (framePose Squat 1 160)) = Some m"
    and d: "detectRep Squat (shortPose 16 (framePose Squat 1 160)) new_ExerciseDetector =
             (if confidence Squat (shortPose 16 (framePose Squat 1 160)) < minFormQuality Squat
              then (False, new_ExerciseDetector\<lparr>frameCount := frameCount new_ExerciseDetector + 1,
                              lastAngle := m, formQuality := lowVisibilityFeedback Squat\<rparr>)
              else evaluate Squat m (new_ExerciseDetector\<lparr>frameCount :=
                              frameCount new_ExerciseDetector + 1, lastAngle := m\<rparr>))"
    using t[THEN conjunct2, THEN conjunct2, THEN conjunct2, THEN mp, OF v] by (elim exE conjE)
  have m160: "m = 160" using m by (simp add: shortSquat_metric)
  have second: "getKeypoint (shortPose 16 (framePose Squat 1 160)) 16 = None
   \<and> detectRep Squat (shortPose 16 (framePose Squat 1 160)) new_ExerciseDetector
       = (False, new_ExerciseDetector\<lparr>frameCount := 1, lastAngle := 160,
                   formQuality := ''Ready - Squat down''\<rparr>)"
    unfolding d m160
    by (simp add: k shortSquat_confidence minFormQuality_eq
          SquatDetector_evaluate_def threshold_defs Let_def new_ExerciseDetector_def)
  from first second show ?thesis by simp
qed

theorem C10_counterexample:
  "length (keypoints (shortPose 16 (framePose Squat 1 160))) < 17
   \<and> getKeypoint (shortPose 16 (framePose Squat 1 160)) 16 = None
   \<and> fst (detectRep Squat (shortPose 16 (framePose Squat 1 160)) (afterWarmup Squat)) = True
   \<and> getFormFeedback (snd (detectRep Squat (shortPose 16 (framePose Squat 1 160))
        (afterWarmup Squat))) \<noteq> positionFeedback Squat"
proof -
  have l: "length (keypoints (shortPose 16 (framePose Squat 1 160))) = 16"
    by (simp add: framePose.simps shortPose_def limbPose_def Let_def)
  have c: "\<not> confidence Squat (shortPose 16 (framePose Squat 1 160)) < minFormQuality Squat"
    by (simp add: shortSquat_confidence minFormQuality_eq)
  have r: "fst (detectRep Squat (shortPose 16 (framePose Squat 1 160)) (afterWarmup Squat))"
    by (simp add: detectRep_fst shortSquat_metric shortSquat_confidence minFormQuality_eq
          framesBetweenReps_eq afterWarmup_state threshold_defs)
  then have "fst (evaluate Squat 160
      ((afterWarmup Squat)\<lparr>frameCount := frameCount (afterWarmup Squat) + 1, lastAngle := 160\<rparr>))"
    by (simp only: detectRep_pass[OF shortSquat_metric c])
  from evaluate_counted_feedback[OF this]
  have f: "formQuality (snd (detectRep Squat (shortPose 16 (framePose Squat 1 160))
        (afterWarmup Squat))) = ''Perfect! Rep counted''"
    by (simp only: detectRep_pass[OF shortSquat_metric c])
  show ?thesis
    using r by (simp add: l f getKeypoint_def getFormFeedback_def)
qed

end
